theory Spec2Isabelle
  imports Complex_Main "HOL-Library.Sublist"
begin

section \<open>JavaScript values and the built-ins the client calls\<close>

text \<open>
  The client of \<^verbatim>\<open>src/api-client.ts\<close> receives its arguments as a JSON object and
  hands every value to built-ins of the platform (\<^verbatim>\<open>Number\<close>, \<^verbatim>\<open>String\<close>,
  \<^verbatim>\<open>JSON.parse\<close>, \<^verbatim>\<open>trim\<close>, \<^verbatim>\<open>split\<close>, \<^verbatim>\<open>toLowerCase\<close>). A string is modelled
  by the list of its UTF-16 code units, one \<^typ>\<open>char\<close> each, which covers the strings whose
  code units are below 256. A finite number is modelled by its exact rational value:
  rounding to binary64, overflow to an infinity and the sign of zero are not modelled.
\<close>

datatype jsnum = NaN | PosInfinity | NegInfinity | Fin rat

datatype jsval =
    JNull
  | JBool bool
  | JNum jsnum
  | JStr string
  | JArr "jsval list"
  | JObj "(string \<times> jsval) list"

text \<open>
  Three built-ins are not modelled but taken as parameters, since no property below
  depends on what they compute: \<^verbatim>\<open>Number::toString\<close> (the shortest decimal form of a
  binary64 value), \<^verbatim>\<open>encodeURIComponent\<close> and the serialisation of
  \<^verbatim>\<open>URLSearchParams\<close>.
\<close>

record platform =
  numberToString :: "jsnum \<Rightarrow> string"
  encodeURIComponent :: "string \<Rightarrow> string"
  urlSearchParamsToString :: "(string \<times> string) list \<Rightarrow> string"

subsection \<open>Characters and strings\<close>

definition isDecimalDigit :: "char \<Rightarrow> bool" where
  "isDecimalDigit c = (c \<in> set ''0123456789'')"

text \<open>The character class \<^verbatim>\<open>[a-zA-Z0-9]\<close>.\<close>

definition isAlphaNumeric :: "char \<Rightarrow> bool" where
  "isAlphaNumeric c =
     (c \<in> set ''abcdefghijklmnopqrstuvwxyzABCDEFGHIJKLMNOPQRSTUVWXYZ0123456789'')"

text \<open>
  White space and line terminators of ECMAScript among the code units below 256:
  TAB, LF, VT, FF, CR, SP and NBSP.
\<close>

definition isWhiteSpace :: "char \<Rightarrow> bool" where
  "isWhiteSpace c = (c \<in> set [CHR 0x09, CHR 0x0A, CHR 0x0B, CHR 0x0C, CHR 0x0D, CHR 0x20, CHR 0xA0])"

definition trim :: "string \<Rightarrow> string" where
  "trim s = rev (dropWhile isWhiteSpace (rev (dropWhile isWhiteSpace s)))"

text \<open>\<^verbatim>\<open>s.split(sep)\<close> for a separator of one character: never an empty list.\<close>

fun split :: "char \<Rightarrow> string \<Rightarrow> string list" where
  "split sep [] = [] # []"
| "split sep (c # cs) =
     (if c = sep then [] # split sep cs
      else (case split sep cs of
              [] \<Rightarrow> [c] # []
            | w # ws \<Rightarrow> (c # w) # ws))"

text \<open>\<^verbatim>\<open>xs.join(sep)\<close> on a list of strings.\<close>

fun join :: "string \<Rightarrow> string list \<Rightarrow> string" where
  "join sep [] = []"
| "join sep [x] = x"
| "join sep (x # y # ys) = x @ sep @ join sep (y # ys)"

text \<open>
  \<^verbatim>\<open>toLowerCase\<close> and \<^verbatim>\<open>toUpperCase\<close> on the letters of ASCII; \<^verbatim>\<open>toLowerCase\<close> also
  on the capital letters of Latin-1 (0xC0 to 0xDE without 0xD7), which it maps 0x20 up.
  \<^verbatim>\<open>toUpperCase\<close> is only applied to the seven method names.
\<close>

definition lowerChar :: "char \<Rightarrow> char" where
  "lowerChar c =
     (let n = (of_char c :: nat)
      in if (65 \<le> n \<and> n \<le> 90) \<or> (192 \<le> n \<and> n \<le> 222 \<and> n \<noteq> 215)
         then char_of (n + 32) else c)"

definition toLowerCase :: "string \<Rightarrow> string" where
  "toLowerCase s = map lowerChar s"

definition upperChar :: "char \<Rightarrow> char" where
  "upperChar c =
     (let n = (of_char c :: nat)
      in if 97 \<le> n \<and> n \<le> 122 then char_of (n - 32) else c)"

definition toUpperCase :: "string \<Rightarrow> string" where
  "toUpperCase s = map upperChar s"

text \<open>
  \<^verbatim>\<open>s.replace(pat, rep)\<close> with a string pattern: the first occurrence only. The
  replacement is inserted as it is (it holds no \<^verbatim>\<open>$\<close> where the client calls it, since
  \<^verbatim>\<open>encodeURIComponent\<close> escapes that character).
\<close>

fun replaceFirst :: "string \<Rightarrow> string \<Rightarrow> string \<Rightarrow> string" where
  "replaceFirst pat rep [] = (if pat = [] then rep else [])"
| "replaceFirst pat rep (c # cs) =
     (if prefix pat (c # cs) then rep @ drop (length pat) (c # cs)
      else c # replaceFirst pat rep cs)"

subsection \<open>Numeric literals\<close>

definition digitValue :: "char \<Rightarrow> nat" where
  "digitValue c = of_char c - 48"

definition digitsToNat :: "string \<Rightarrow> nat" where
  "digitsToNat ds = foldl (\<lambda>a c. a * 10 + digitValue c) 0 ds"

definition scale10 :: "rat \<Rightarrow> int \<Rightarrow> rat" where
  "scale10 q e = (if 0 \<le> e then q * 10 ^ nat e else q / 10 ^ nat (- e))"

text \<open>
  The exponent part \<^verbatim>\<open>[eE][+-]?digits\<close> at the end of a literal: the empty rest is
  exponent 0, anything else that is not a complete exponent part is no literal.
\<close>

definition exponentPart :: "string \<Rightarrow> int option" where
  "exponentPart s =
     (case s of
        [] \<Rightarrow> Some 0
      | c # r \<Rightarrow>
          if c = CHR ''e'' \<or> c = CHR ''E'' then
            (let (neg, ds) = (case r of
                                [] \<Rightarrow> (False, [])
                              | d # r' \<Rightarrow> if d = CHR ''-'' then (True, r')
                                          else if d = CHR ''+'' then (False, r')
                                          else (False, r))
             in if ds \<noteq> [] \<and> list_all isDecimalDigit ds
                then Some (if neg then - int (digitsToNat ds) else int (digitsToNat ds))
                else None)
          else None)"

text \<open>
  A decimal literal without sign: integer digits, an optional dot with fraction digits,
  an optional exponent. \<^verbatim>\<open>strict\<close> is the grammar of JSON (digits on both sides of a
  dot, no leading zero); otherwise it is \<^verbatim>\<open>StrUnsignedDecimalLiteral\<close> of ECMAScript
  without \<^verbatim>\<open>Infinity\<close>, where one side of the dot may be empty.
\<close>

definition unsignedDecimal :: "bool \<Rightarrow> string \<Rightarrow> rat option" where
  "unsignedDecimal strict s =
     (let ip = takeWhile isDecimalDigit s;
          r1 = dropWhile isDecimalDigit s;
          hasDot = (r1 \<noteq> [] \<and> hd r1 = CHR ''.'');
          fp = (if hasDot then takeWhile isDecimalDigit (tl r1) else []);
          r2 = (if hasDot then dropWhile isDecimalDigit (tl r1) else r1);
          ok = (if strict
                then ip \<noteq> [] \<and> (hd ip = CHR ''0'' \<longrightarrow> length ip = 1) \<and> (hasDot \<longrightarrow> fp \<noteq> [])
                else ip \<noteq> [] \<or> fp \<noteq> [])
      in if ok
         then (case exponentPart r2 of
                 None \<Rightarrow> None
               | Some e \<Rightarrow> Some (scale10 (of_nat (digitsToNat (ip @ fp))) (e - int (length fp))))
         else None)"

definition hexDigitValue :: "char \<Rightarrow> nat option" where
  "hexDigitValue c =
     (let n = (of_char c :: nat)
      in if 48 \<le> n \<and> n \<le> 57 then Some (n - 48)
         else if 97 \<le> n \<and> n \<le> 102 then Some (n - 87)
         else if 65 \<le> n \<and> n \<le> 70 then Some (n - 55)
         else None)"

text \<open>Digits in a radix of 2, 8 or 16; no digit or a digit out of the radix is no literal.\<close>

definition radixDigits :: "nat \<Rightarrow> string \<Rightarrow> nat option" where
  "radixDigits b ds =
     (if ds \<noteq> [] \<and> list_all (\<lambda>c. case hexDigitValue c of None \<Rightarrow> False | Some v \<Rightarrow> v < b) ds
      then Some (foldl (\<lambda>a c. a * b + the (hexDigitValue c)) 0 ds)
      else None)"

definition nonDecimalIntegerLiteral :: "string \<Rightarrow> nat option" where
  "nonDecimalIntegerLiteral s =
     (case s of
        z # x # ds \<Rightarrow>
          if z \<noteq> CHR ''0'' then None
          else if x = CHR ''x'' \<or> x = CHR ''X'' then radixDigits 16 ds
          else if x = CHR ''o'' \<or> x = CHR ''O'' then radixDigits 8 ds
          else if x = CHR ''b'' \<or> x = CHR ''B'' then radixDigits 2 ds
          else None
      | _ \<Rightarrow> None)"

text \<open>
  \<^verbatim>\<open>StringToNumber\<close>: white space is trimmed at both ends; the empty rest is 0; a
  literal of \<^verbatim>\<open>StrNumericLiteral\<close> is its value; everything else is NaN.
\<close>

definition stringToNumber :: "string \<Rightarrow> jsnum" where
  "stringToNumber s =
     (let t = trim s
      in if t = [] then Fin 0
         else (case nonDecimalIntegerLiteral t of
                 Some n \<Rightarrow> Fin (of_nat n)
               | None \<Rightarrow>
                   (let neg = (hd t = CHR ''-'');
                        u = (if hd t = CHR ''-'' \<or> hd t = CHR ''+'' then tl t else t)
                    in if u = ''Infinity'' then (if neg then NegInfinity else PosInfinity)
                       else (case unsignedDecimal False u of
                               None \<Rightarrow> NaN
                             | Some q \<Rightarrow> Fin (if neg then - q else q)))))"

subsection \<open>\<^verbatim>\<open>JSON.parse\<close>\<close>

text \<open>
  \<^verbatim>\<open>JSON.parse\<close> returns a value or throws a \<^verbatim>\<open>SyntaxError\<close> (\<open>None\<close> here). The
  text is cut into tokens by one pass over its characters; a scalar that is not a string
  is a maximal run of characters other than white space, quotes and punctuation, which
  must be \<^verbatim>\<open>true\<close>, \<^verbatim>\<open>false\<close>, \<^verbatim>\<open>null\<close> or a number of the JSON grammar. The tokens
  are then read by a machine with a stack of the arrays and objects that are still open.
  A \<^verbatim>\<open>\u\<close> escape of a code unit from 256 on has no counterpart in \<^typ>\<open>char\<close> and keeps
  its low byte; the order that JavaScript gives to integer-like keys of an object is not
  modelled (keys stay in the order of the text).
\<close>

datatype token =
    TLBrace | TRBrace | TLBracket | TRBracket | TComma | TColon
  | TString string
  | TWord string

datatype lexmode =
    LDefault
  | LWord string
  | LString string
  | LEscape string
  | LUnicode string string

definition isJsonSpace :: "char \<Rightarrow> bool" where
  "isJsonSpace c = (c \<in> set [CHR 0x20, CHR 0x09, CHR 0x0A, CHR 0x0D])"

definition punctuation :: "char \<Rightarrow> token option" where
  "punctuation c =
     (if c = CHR ''{'' then Some TLBrace
      else if c = CHR ''}'' then Some TRBrace
      else if c = CHR ''['' then Some TLBracket
      else if c = CHR '']'' then Some TRBracket
      else if c = CHR '','' then Some TComma
      else if c = CHR '':'' then Some TColon
      else None)"

definition escapeChar :: "char \<Rightarrow> char option" where
  "escapeChar c =
     (if c = CHR 0x22 then Some (CHR 0x22)
      else if c = CHR 0x5C then Some (CHR 0x5C)
      else if c = CHR ''/'' then Some (CHR ''/'')
      else if c = CHR ''b'' then Some (CHR 0x08)
      else if c = CHR ''f'' then Some (CHR 0x0C)
      else if c = CHR ''n'' then Some (CHR 0x0A)
      else if c = CHR ''r'' then Some (CHR 0x0D)
      else if c = CHR ''t'' then Some (CHR 0x09)
      else None)"

definition consToken :: "token \<Rightarrow> token list option \<Rightarrow> token list option" where
  "consToken t r = map_option ((#) t) r"

fun lex :: "lexmode \<Rightarrow> string \<Rightarrow> token list option" where
  "lex LDefault [] = Some []"
| "lex (LWord w) [] = Some [TWord w]"
| "lex (LString s) [] = None"
| "lex (LEscape s) [] = None"
| "lex (LUnicode s h) [] = None"
| "lex LDefault (c # cs) =
     (if isJsonSpace c then lex LDefault cs
      else if c = CHR 0x22 then lex (LString []) cs
      else (case punctuation c of
              Some t \<Rightarrow> consToken t (lex LDefault cs)
            | None \<Rightarrow> lex (LWord [c]) cs))"
| "lex (LWord w) (c # cs) =
     (if isJsonSpace c then consToken (TWord w) (lex LDefault cs)
      else if c = CHR 0x22 then consToken (TWord w) (lex (LString []) cs)
      else (case punctuation c of
              Some t \<Rightarrow> consToken (TWord w) (consToken t (lex LDefault cs))
            | None \<Rightarrow> lex (LWord (w @ [c])) cs))"
| "lex (LString s) (c # cs) =
     (if c = CHR 0x22 then consToken (TString s) (lex LDefault cs)
      else if c = CHR 0x5C then lex (LEscape s) cs
      else if (of_char c :: nat) < 32 then None
      else lex (LString (s @ [c])) cs)"
| "lex (LEscape s) (c # cs) =
     (if c = CHR ''u'' then lex (LUnicode s []) cs
      else (case escapeChar c of
              Some e \<Rightarrow> lex (LString (s @ [e])) cs
            | None \<Rightarrow> None))"
| "lex (LUnicode s h) (c # cs) =
     (case hexDigitValue c of
        None \<Rightarrow> None
      | Some _ \<Rightarrow>
          if length h = 3
          then lex (LString (s @ [char_of (foldl (\<lambda>a d. a * 16 + the (hexDigitValue d)) 0 (h @ [c]))])) cs
          else lex (LUnicode s (h @ [c])) cs)"

definition jsonNumber :: "string \<Rightarrow> jsval option" where
  "jsonNumber w =
     (let neg = (w \<noteq> [] \<and> hd w = CHR ''-'');
          u = (if neg then tl w else w)
      in map_option (\<lambda>q. JNum (Fin (if neg then - q else q))) (unsignedDecimal True u))"

definition wordValue :: "string \<Rightarrow> jsval option" where
  "wordValue w =
     (if w = ''true'' then Some (JBool True)
      else if w = ''false'' then Some (JBool False)
      else if w = ''null'' then Some JNull
      else jsonNumber w)"

text \<open>Assigning a property: a key that is there keeps its place, a new key goes last.\<close>

fun objSet :: "string \<Rightarrow> jsval \<Rightarrow> (string \<times> jsval) list \<Rightarrow> (string \<times> jsval) list" where
  "objSet k v [] = [(k, v)]"
| "objSet k v ((k', v') # kvs) = (if k = k' then (k, v) # kvs else (k', v') # objSet k v kvs)"

datatype frame =
    FArr "jsval list"
  | FObj "(string \<times> jsval) list" "string option"

datatype pstate =
    PValue "frame list"
  | PFirstElem "frame list"
  | PFirstKey "frame list"
  | PKey "frame list"
  | PColon "frame list"
  | PAfter "frame list"
  | PDone jsval

text \<open>A complete value goes to the innermost open array or object, or is the result.\<close>

fun deliver :: "jsval \<Rightarrow> frame list \<Rightarrow> pstate option" where
  "deliver v [] = Some (PDone v)"
| "deliver v (FArr xs # st) = Some (PAfter (FArr (xs @ [v]) # st))"
| "deliver v (FObj kvs (Some k) # st) = Some (PAfter (FObj (objSet k v kvs) None # st))"
| "deliver v (FObj kvs None # st) = None"

fun startValue :: "frame list \<Rightarrow> token \<Rightarrow> pstate option" where
  "startValue st TLBracket = Some (PFirstElem (FArr [] # st))"
| "startValue st TLBrace = Some (PFirstKey (FObj [] None # st))"
| "startValue st (TString s) = deliver (JStr s) st"
| "startValue st (TWord w) = (case wordValue w of None \<Rightarrow> None | Some v \<Rightarrow> deliver v st)"
| "startValue st _ = None"

fun pendingKey :: "string \<Rightarrow> frame list \<Rightarrow> pstate option" where
  "pendingKey k (FObj kvs _ # st) = Some (PColon (FObj kvs (Some k) # st))"
| "pendingKey k _ = None"

fun closeArray :: "frame list \<Rightarrow> pstate option" where
  "closeArray (FArr xs # st) = deliver (JArr xs) st"
| "closeArray _ = None"

fun closeObject :: "frame list \<Rightarrow> pstate option" where
  "closeObject (FObj kvs _ # st) = deliver (JObj kvs) st"
| "closeObject _ = None"

fun step :: "pstate \<Rightarrow> token \<Rightarrow> pstate option" where
  "step (PValue st) t = startValue st t"
| "step (PFirstElem st) t = (if t = TRBracket then closeArray st else startValue st t)"
| "step (PFirstKey st) t =
     (case t of TRBrace \<Rightarrow> closeObject st | TString k \<Rightarrow> pendingKey k st | _ \<Rightarrow> None)"
| "step (PKey st) t = (case t of TString k \<Rightarrow> pendingKey k st | _ \<Rightarrow> None)"
| "step (PColon st) t = (if t = TColon then Some (PValue st) else None)"
| "step (PAfter st) t =
     (case st of
        FArr xs # _ \<Rightarrow>
          (case t of TComma \<Rightarrow> Some (PValue st) | TRBracket \<Rightarrow> closeArray st | _ \<Rightarrow> None)
      | FObj kvs _ # _ \<Rightarrow>
          (case t of TComma \<Rightarrow> Some (PKey st) | TRBrace \<Rightarrow> closeObject st | _ \<Rightarrow> None)
      | [] \<Rightarrow> None)"
| "step (PDone v) t = None"

fun run :: "pstate \<Rightarrow> token list \<Rightarrow> jsval option" where
  "run s [] = (case s of PDone v \<Rightarrow> Some v | _ \<Rightarrow> None)"
| "run s (t # ts) = (case step s t of None \<Rightarrow> None | Some s' \<Rightarrow> run s' ts)"

definition JSON_parse :: "string \<Rightarrow> jsval option" where
  "JSON_parse s = (case lex LDefault s of None \<Rightarrow> None | Some ts \<Rightarrow> run (PValue []) ts)"

subsection \<open>\<^verbatim>\<open>String(v)\<close> and \<^verbatim>\<open>Number(v)\<close>\<close>

text \<open>
  \<^verbatim>\<open>String(v)\<close>, which is also what a template literal applies: an array joins the
  strings of its elements with a comma, \<^verbatim>\<open>null\<close> elements being empty; a plain object is
  \<^verbatim>\<open>[object Object]\<close>.
\<close>

fun toString :: "platform \<Rightarrow> jsval \<Rightarrow> string" where
  "toString pf JNull = ''null''"
| "toString pf (JBool b) = (if b then ''true'' else ''false'')"
| "toString pf (JNum n) = numberToString pf n"
| "toString pf (JStr s) = s"
| "toString pf (JArr xs) =
     join '','' (map (\<lambda>x. case x of JNull \<Rightarrow> [] | _ \<Rightarrow> toString pf x) xs)"
| "toString pf (JObj kvs) = ''[object Object]''"

text \<open>\<^verbatim>\<open>Number(v)\<close>: an array or object is first turned into its string.\<close>

fun toNumber :: "platform \<Rightarrow> jsval \<Rightarrow> jsnum" where
  "toNumber pf JNull = Fin 0"
| "toNumber pf (JBool b) = Fin (if b then 1 else 0)"
| "toNumber pf (JNum n) = n"
| "toNumber pf (JStr s) = stringToNumber s"
| "toNumber pf (JArr xs) = stringToNumber (toString pf (JArr xs))"
| "toNumber pf (JObj kvs) = stringToNumber (toString pf (JObj kvs))"

text \<open>
  Truthiness, which the client tests with \<^verbatim>\<open>||\<close>, \<^verbatim>\<open>&&\<close> and \<^verbatim>\<open>!\<close>: a string that is
  \<^verbatim>\<open>undefined\<close> (\<open>None\<close>) or empty is falsy.
\<close>

definition truthyString :: "string option \<Rightarrow> bool" where
  "truthyString s = (case s of None \<Rightarrow> False | Some v \<Rightarrow> v \<noteq> [])"

fun truthy :: "jsval \<Rightarrow> bool" where
  "truthy JNull = False"
| "truthy (JBool b) = b"
| "truthy (JNum n) = (n \<noteq> NaN \<and> n \<noteq> Fin 0)"
| "truthy (JStr s) = (s \<noteq> [])"
| "truthy (JArr xs) = True"
| "truthy (JObj kvs) = True"

section \<open>The API document\<close>

text \<open>
  The parts of an OpenAPI 3 document that \<^verbatim>\<open>APIClient\<close> reads. An optional field is an
  \<open>option\<close>; \<^verbatim>\<open>required\<close> is only tested for truthiness, so an absent flag is \<open>False\<close>.
  An object whose keys are enumerated (\<^verbatim>\<open>paths\<close>, \<^verbatim>\<open>content\<close>) is an association list
  in the order of \<^verbatim>\<open>Object.entries\<close>.
\<close>

record schemaObject =
  schema_type :: "string option"

record parameterObject =
  param_name :: string
  param_in :: string
  param_required :: bool
  param_schema :: "schemaObject option"

record mediaTypeObject =
  media_schema :: "schemaObject option"

record requestBodyObject =
  rb_content :: "(string \<times> mediaTypeObject) list option"
  rb_required :: bool

record operationObject =
  op_operationId :: "string option"
  op_parameters :: "parameterObject list option"
  op_requestBody :: "requestBodyObject option"

record pathItemObject =
  pi_get :: "operationObject option"
  pi_post :: "operationObject option"
  pi_put :: "operationObject option"
  pi_patch :: "operationObject option"
  pi_delete :: "operationObject option"
  pi_options :: "operationObject option"
  pi_head :: "operationObject option"
  pi_parameters :: "parameterObject list option"

record serverObject =
  server_url :: string

record document =
  doc_servers :: "serverObject list option"
  doc_paths :: "(string \<times> pathItemObject option) list"

section \<open>\<^verbatim>\<open>APIClient\<close>: state, \<^verbatim>\<open>initialize\<close> and \<^verbatim>\<open>parseOperations\<close>\<close>

text \<open>
  Of the server options only \<^verbatim>\<open>baseUrl\<close> is read after the constructor; the others
  (headers, credentials, timeout) configure the axios instance.
\<close>

record serverOptions =
  opt_baseUrl :: "string option"

record operationInfo =
  oi_method :: string
  oi_path :: string
  oi_operation :: operationObject
  oi_parameters :: "parameterObject list"
  oi_requestBody :: "requestBodyObject option"

text \<open>
  The fields of the class. \<open>c_commonHeaders\<close> stands for
  \<^verbatim>\<open>this.client.defaults.headers.common || {}\<close> of the axios instance.
\<close>

record apiClient =
  c_options :: serverOptions
  c_schema :: "document option"
  c_operations :: "string \<rightharpoonup> operationInfo"
  c_baseUrl :: "string option"
  c_commonHeaders :: "string \<rightharpoonup> string"

text \<open>
  What the client throws. \<open>Error m\<close> is \<^verbatim>\<open>new Error(m)\<close>; \<open>SyntaxError\<close> is what
  \<^verbatim>\<open>JSON.parse\<close> throws on a body that is no JSON text; \<open>HttpError\<close> is the error made
  from a failed axios call, kept as its status, its text and its data (the message would
  need \<^verbatim>\<open>JSON.stringify\<close>); \<open>Rethrown\<close> is any other failure of the call, thrown on as
  it is.
\<close>

datatype error =
    Error string
  | SyntaxError
  | HttpError "nat option" string jsval
  | Rethrown

definition getBaseUrl :: "document \<Rightarrow> error + string" where
  "getBaseUrl schema =
     (case doc_servers schema of
        Some (s # _) \<Rightarrow> Inr (server_url s)
      | _ \<Rightarrow> Inl (Error ''No server URL found in OpenAPI schema and no base URL provided''))"

definition methods :: "string list" where
  "methods = [''get'', ''post'', ''put'', ''patch'', ''delete'', ''options'', ''head'']"

text \<open>\<^verbatim>\<open>pathItem[method]\<close> for a method of the list above.\<close>

definition pathItemMethod :: "pathItemObject \<Rightarrow> string \<Rightarrow> operationObject option" where
  "pathItemMethod pathItem method =
     (if method = ''get'' then pi_get pathItem
      else if method = ''post'' then pi_post pathItem
      else if method = ''put'' then pi_put pathItem
      else if method = ''patch'' then pi_patch pathItem
      else if method = ''delete'' then pi_delete pathItem
      else if method = ''options'' then pi_options pathItem
      else if method = ''head'' then pi_head pathItem
      else None)"

text \<open>
  The fallback identifier
  \<^verbatim>\<open>`${method}_${pathKey.replace(/[^a-zA-Z0-9]/g, '_')}`\<close>: the global replace puts one
  underscore for each character that is no letter or digit of ASCII.
\<close>

definition generatedOperationId :: "string \<Rightarrow> string \<Rightarrow> string" where
  "generatedOperationId method pathKey =
     method @ ''_'' @ map (\<lambda>c. if isAlphaNumeric c then c else CHR ''_'') pathKey"

text \<open>\<^verbatim>\<open>operation.operationId || ...\<close>: an absent or empty identifier takes the fallback.\<close>

definition operationIdOf :: "string \<Rightarrow> string \<Rightarrow> operationObject \<Rightarrow> string" where
  "operationIdOf method pathKey operation =
     (if truthyString (op_operationId operation) then the (op_operationId operation)
      else generatedOperationId method pathKey)"

definition collectParameters :: "pathItemObject \<Rightarrow> operationObject \<Rightarrow> parameterObject list" where
  "collectParameters pathItem operation =
     (case pi_parameters pathItem of None \<Rightarrow> [] | Some ps \<Rightarrow> ps) @
     (case op_parameters operation of None \<Rightarrow> [] | Some ps \<Rightarrow> ps)"

text \<open>The entry that \<^verbatim>\<open>this.operations.set\<close> stores.\<close>

definition operationInfoOf :: "string \<Rightarrow> string \<Rightarrow> pathItemObject \<Rightarrow> operationObject \<Rightarrow> operationInfo" where
  "operationInfoOf method pathKey pathItem operation =
     \<lparr>oi_method = toUpperCase method,
      oi_path = pathKey,
      oi_operation = operation,
      oi_parameters = collectParameters pathItem operation,
      oi_requestBody = op_requestBody operation\<rparr>"

text \<open>One round of the inner loop: \<^verbatim>\<open>continue\<close> when the path item has no such method.\<close>

definition parseMethod ::
  "string \<Rightarrow> pathItemObject \<Rightarrow> string \<Rightarrow> (string \<rightharpoonup> operationInfo) \<Rightarrow> (string \<rightharpoonup> operationInfo)" where
  "parseMethod pathKey pathItem method ops =
     (case pathItemMethod pathItem method of
        None \<Rightarrow> ops
      | Some operation \<Rightarrow>
          ops(operationIdOf method pathKey operation \<mapsto>
                operationInfoOf method pathKey pathItem operation))"

text \<open>One round of the outer loop: \<^verbatim>\<open>continue\<close> on a path item that is not there.\<close>

definition parsePath ::
  "string \<times> pathItemObject option \<Rightarrow> (string \<rightharpoonup> operationInfo) \<Rightarrow> (string \<rightharpoonup> operationInfo)" where
  "parsePath entry ops =
     (case snd entry of
        None \<Rightarrow> ops
      | Some pathItem \<Rightarrow> fold (parseMethod (fst entry) pathItem) methods ops)"

definition parseOperations :: "document \<Rightarrow> apiClient \<Rightarrow> apiClient" where
  "parseOperations schema c = c\<lparr>c_operations := fold parsePath (doc_paths schema) (c_operations c)\<rparr>"

text \<open>
  \<^verbatim>\<open>initialize\<close> returns the client after the call and the error thrown, if any. The
  schema is stored before the base URL is resolved; when \<^verbatim>\<open>getBaseUrl\<close> throws, the base
  URL and the operations are as they were.
\<close>

definition initialize :: "apiClient \<Rightarrow> document \<Rightarrow> apiClient \<times> error option" where
  "initialize c schema =
     (let c1 = c\<lparr>c_schema := Some schema\<rparr>
      in if truthyString (opt_baseUrl (c_options c1))
         then (parseOperations schema (c1\<lparr>c_baseUrl := opt_baseUrl (c_options c1)\<rparr>), None)
         else (case getBaseUrl schema of
                 Inl e \<Rightarrow> (c1, Some e)
               | Inr u \<Rightarrow> (parseOperations schema (c1\<lparr>c_baseUrl := Some u\<rparr>), None)))"

text \<open>
  The client as the constructor leaves it: no schema, no operation, no base URL. The
  headers of the axios instance are a parameter.
\<close>

definition newClient :: "serverOptions \<Rightarrow> (string \<rightharpoonup> string) \<Rightarrow> apiClient" where
  "newClient opts common =
     \<lparr>c_options = opts, c_schema = None, c_operations = Map.empty, c_baseUrl = None,
      c_commonHeaders = common\<rparr>"

section \<open>\<^verbatim>\<open>executeOperation\<close>\<close>

subsection \<open>\<^verbatim>\<open>processParameterValue\<close>\<close>

definition processParameterValue :: "platform \<Rightarrow> parameterObject \<Rightarrow> jsval \<Rightarrow> error + jsval" where
  "processParameterValue pf param val =
     (case param_schema param of
        None \<Rightarrow> Inr val
      | Some schema \<Rightarrow>
          if schema_type schema = Some ''integer'' \<or> schema_type schema = Some ''number'' then
            (let num = toNumber pf val
             in if num = NaN
                then Inl (Error (''Parameter '' @ param_name param @
                                 '' must be a valid number, got: '' @ toString pf val))
                else Inr (JNum num))
          else if schema_type schema = Some ''boolean'' then
            (case val of
               JBool b \<Rightarrow> Inr val
             | JStr s \<Rightarrow>
                 if toLowerCase s = ''true'' then Inr (JBool True)
                 else if toLowerCase s = ''false'' then Inr (JBool False)
                 else Inl (Error (''Parameter '' @ param_name param @
                                  '' must be a boolean, got: '' @ toString pf val))
             | _ \<Rightarrow> Inl (Error (''Parameter '' @ param_name param @
                                '' must be a boolean, got: '' @ toString pf val)))
          else if schema_type schema = Some ''array'' then
            (case val of
               JArr xs \<Rightarrow> Inr val
             | JStr s \<Rightarrow>
                 (case JSON_parse s of
                    Some v \<Rightarrow> Inr v
                  | None \<Rightarrow> Inr (JArr (map (\<lambda>v. JStr (trim v)) (split (CHR '','') s))))
             | _ \<Rightarrow> Inl (Error (''Parameter '' @ param_name param @
                                '' must be an array, got: '' @ toString pf val)))
          else Inr (JStr (toString pf val)))"

subsection \<open>The loop over the declared parameters\<close>

text \<open>
  The locals that the loop updates: the URL, the query parameters, the headers and the
  list of missing required parameters.
\<close>

record loopState =
  ls_url :: string
  ls_queryParams :: "string \<rightharpoonup> jsval"
  ls_headers :: "string \<rightharpoonup> string"
  ls_missing :: "string list"

text \<open>The \<^verbatim>\<open>switch (param.in)\<close>: any other place leaves the request as it is.\<close>

definition placeParameter :: "platform \<Rightarrow> parameterObject \<Rightarrow> jsval \<Rightarrow> loopState \<Rightarrow> loopState" where
  "placeParameter pf param processedValue st =
     (if param_in param = ''path'' then
        st\<lparr>ls_url := replaceFirst (''{'' @ param_name param @ ''}'')
                        (encodeURIComponent pf (toString pf processedValue)) (ls_url st)\<rparr>
      else if param_in param = ''query'' then
        st\<lparr>ls_queryParams := (ls_queryParams st)(param_name param \<mapsto> processedValue)\<rparr>
      else if param_in param = ''header'' then
        st\<lparr>ls_headers := (ls_headers st)(param_name param \<mapsto> toString pf processedValue)\<rparr>
      else st)"

text \<open>
  The arguments are the own properties of \<^verbatim>\<open>args\<close>: \<open>None\<close> is \<^verbatim>\<open>undefined\<close>
  (for a parameter that bears the name of a member that every object inherits, such as
  \<^verbatim>\<open>constructor\<close> or \<^verbatim>\<open>toString\<close>, the code reads that member instead: such names
  are outside this model, see \<open>noInheritedNames\<close> below). A
  value that is \<^verbatim>\<open>undefined\<close> or \<^verbatim>\<open>null\<close> is recorded as missing when the parameter is
  required, and skipped. An error thrown by \<^verbatim>\<open>processParameterValue\<close> leaves the loop
  and the function.
\<close>

fun processParameters ::
  "platform \<Rightarrow> (string \<rightharpoonup> jsval) \<Rightarrow> parameterObject list \<Rightarrow> loopState \<Rightarrow> error + loopState" where
  "processParameters pf args [] st = Inr st"
| "processParameters pf args (param # params) st =
     (if args (param_name param) = None \<or> args (param_name param) = Some JNull then
        processParameters pf args params
          (if param_required param
           then st\<lparr>ls_missing := ls_missing st @ [param_name param @ '' ('' @ param_in param @ '')'']\<rparr>
           else st)
      else
        (case processParameterValue pf param (the (args (param_name param))) of
           Inl e \<Rightarrow> Inl e
         | Inr processedValue \<Rightarrow>
             processParameters pf args params (placeParameter pf param processedValue st)))"

subsection \<open>The request body\<close>

definition determineContentType :: "requestBodyObject \<Rightarrow> (string \<rightharpoonup> string) \<Rightarrow> string option" where
  "determineContentType requestBody headers =
     (let existingContentType =
            (if truthyString (headers ''Content-Type'') then headers ''Content-Type''
             else headers ''content-type'');
          contentTypes = map fst (case rb_content requestBody of None \<Rightarrow> [] | Some c \<Rightarrow> c)
      in if truthyString existingContentType then existingContentType
         else if ''application/json'' \<in> set contentTypes then Some ''application/json''
         else if ''application/xml'' \<in> set contentTypes then Some ''application/xml''
         else if ''text/xml'' \<in> set contentTypes then Some ''text/xml''
         else if ''application/x-www-form-urlencoded'' \<in> set contentTypes
           then Some ''application/x-www-form-urlencoded''
         else if ''multipart/form-data'' \<in> set contentTypes then Some ''multipart/form-data''
         else (case contentTypes of [] \<Rightarrow> None | t # _ \<Rightarrow> Some t))"

text \<open>The decimal string of an array index, a key of \<^verbatim>\<open>Object.entries\<close> of an array.\<close>

fun natToString :: "nat \<Rightarrow> string" where
  "natToString n =
     (if n < 10 then [char_of (48 + n)]
      else natToString (n div 10) @ [char_of (48 + n mod 10)])"

definition objectEntries :: "jsval \<Rightarrow> (string \<times> jsval) list" where
  "objectEntries v =
     (case v of
        JObj kvs \<Rightarrow> kvs
      | JArr xs \<Rightarrow> zip (map natToString [0..<length xs]) xs
      | _ \<Rightarrow> [])"

definition isObject :: "jsval \<Rightarrow> bool" where
  "isObject v = (case v of JObj kvs \<Rightarrow> True | JArr xs \<Rightarrow> True | _ \<Rightarrow> False)"

definition processRequestBody :: "platform \<Rightarrow> jsval \<Rightarrow> string option \<Rightarrow> error + jsval" where
  "processRequestBody pf body contentType =
     (if \<not> truthyString contentType then Inr body
      else if contentType = Some ''application/json'' then
        (case body of
           JStr s \<Rightarrow> (case JSON_parse s of None \<Rightarrow> Inl SyntaxError | Some v \<Rightarrow> Inr v)
         | _ \<Rightarrow> Inr body)
      else if contentType = Some ''application/x-www-form-urlencoded'' then
        (if isObject body
         then Inr (JStr (urlSearchParamsToString pf
                           (map (\<lambda>(key, v). (key, toString pf v)) (objectEntries body))))
         else Inr body)
      else Inr body)"

subsection \<open>The call\<close>

record axiosRequestConfig =
  cfg_method :: string
  cfg_url :: string
  cfg_params :: "string \<rightharpoonup> jsval"
  cfg_headers :: "string \<rightharpoonup> string"
  cfg_data :: "jsval option"

record axiosResponse =
  resp_status :: nat
  resp_statusText :: string
  resp_headers :: "(string \<times> string) list"
  resp_data :: jsval
  resp_url :: "string option"
  resp_method :: "string option"

text \<open>
  A failed call is an axios error, with the status, the status text and the data of the
  response when there is one and a message, or some other failure.
\<close>

datatype failure =
    AxiosError "nat option" "string option" "jsval option" string
  | OtherFailure

record operationResult =
  res_status :: nat
  res_statusText :: string
  res_headers :: "(string \<times> string) list"
  res_data :: jsval
  res_url :: "string option"
  res_method :: "string option"

definition resultOf :: "axiosResponse \<Rightarrow> operationResult" where
  "resultOf response =
     \<lparr>res_status = resp_status response,
      res_statusText = resp_statusText response,
      res_headers = resp_headers response,
      res_data = resp_data response,
      res_url = resp_url response,
      res_method = map_option toUpperCase (resp_method response)\<rparr>"

definition errorOf :: "failure \<Rightarrow> error" where
  "errorOf f =
     (case f of
        AxiosError status statusText dat message \<Rightarrow>
          HttpError status
            (if truthyString statusText then the statusText else message)
            (case dat of None \<Rightarrow> JObj [] | Some d \<Rightarrow> if truthy d then d else JObj [])
      | OtherFailure \<Rightarrow> Rethrown)"

text \<open>
  Everything between the loop and the call: the check of the missing parameters, the
  body and its content type, the request configuration. \<open>Inl\<close> is an error thrown before
  the call is made.
\<close>

definition buildRequest ::
  "platform \<Rightarrow> apiClient \<Rightarrow> operationInfo \<Rightarrow> (string \<rightharpoonup> jsval) \<Rightarrow> error + axiosRequestConfig" where
  "buildRequest pf c info args =
     (case processParameters pf args (oi_parameters info)
             \<lparr>ls_url = (case c_baseUrl c of None \<Rightarrow> ''undefined'' | Some b \<Rightarrow> b) @ oi_path info,
              ls_queryParams = Map.empty, ls_headers = Map.empty, ls_missing = []\<rparr> of
        Inl e \<Rightarrow> Inl e
      | Inr st \<Rightarrow>
          if ls_missing st \<noteq> [] then
            Inl (Error (''Missing required parameters: '' @ join '', '' (ls_missing st)))
          else
            (case (oi_requestBody info, args ''body'') of
               (Some requestBody, Some bodyArg) \<Rightarrow>
                 (let contentType = determineContentType requestBody (ls_headers st)
                  in case processRequestBody pf bodyArg contentType of
                       Inl e \<Rightarrow> Inl e
                     | Inr body \<Rightarrow>
                         Inr \<lparr>cfg_method = oi_method info,
                              cfg_url = ls_url st,
                              cfg_params = ls_queryParams st,
                              cfg_headers = c_commonHeaders c ++
                                (if truthyString contentType \<and> \<not> truthyString (ls_headers st ''Content-Type'')
                                 then (ls_headers st)(''Content-Type'' \<mapsto> the contentType)
                                 else ls_headers st),
                              cfg_data = Some body\<rparr>)
             | _ \<Rightarrow>
                 Inr \<lparr>cfg_method = oi_method info,
                      cfg_url = ls_url st,
                      cfg_params = ls_queryParams st,
                      cfg_headers = c_commonHeaders c ++ ls_headers st,
                      cfg_data = None\<rparr>))"

text \<open>
  \<^verbatim>\<open>executeOperation\<close> returns what the caller gets (the result, or the error thrown)
  and the list of the requests it has passed to \<^verbatim>\<open>this.client.request\<close>, the only
  network I/O of the class. The transport is the parameter \<open>request\<close>.
\<close>

definition executeOperation ::
  "platform \<Rightarrow> (axiosRequestConfig \<Rightarrow> failure + axiosResponse) \<Rightarrow> apiClient \<Rightarrow> string \<Rightarrow>
   (string \<rightharpoonup> jsval) \<Rightarrow> (error + operationResult) \<times> axiosRequestConfig list" where
  "executeOperation pf request c operationId args =
     (case c_operations c operationId of
        None \<Rightarrow> (Inl (Error (''Operation '' @ operationId @ '' not found'')), [])
      | Some operationInfo \<Rightarrow>
          (case buildRequest pf c operationInfo args of
             Inl e \<Rightarrow> (Inl e, [])
           | Inr config \<Rightarrow>
               (case request config of
                  Inr response \<Rightarrow> (Inr (resultOf response), [config])
                | Inl f \<Rightarrow> (Inl (errorOf f), [config]))))"

section \<open>Notions of the specification and concrete inputs\<close>

subsection \<open>Identifiers\<close>

text \<open>
  The rule of the specification for a generated identifier, in its words: the
  lower-cased method, two underscores, then the path template with every run of
  non-alphanumeric characters collapsed to a single underscore.
\<close>

fun collapseRuns :: "string \<Rightarrow> string" where
  "collapseRuns [] = []"
| "collapseRuns [c] = [if isAlphaNumeric c then c else CHR ''_'']"
| "collapseRuns (c # d # cs) =
     (if isAlphaNumeric c then c # collapseRuns (d # cs)
      else if isAlphaNumeric d then CHR ''_'' # collapseRuns (d # cs)
      else collapseRuns (d # cs))"

definition spec_generatedOperationId :: "string \<Rightarrow> string \<Rightarrow> string" where
  "spec_generatedOperationId method pathKey = toLowerCase method @ ''__'' @ collapseRuns pathKey"

text \<open>
  The operations of a document in the order in which \<^verbatim>\<open>parseOperations\<close> meets them,
  each with the identifier it is stored under: the paths in the order of the document,
  the methods in the order of the fixed list.
\<close>

definition methodEntries :: "string \<Rightarrow> pathItemObject \<Rightarrow> (string \<times> operationInfo) list" where
  "methodEntries pathKey pathItem =
     concat (map (\<lambda>method. case pathItemMethod pathItem method of
                              None \<Rightarrow> []
                            | Some operation \<Rightarrow>
                                [(operationIdOf method pathKey operation,
                                  operationInfoOf method pathKey pathItem operation)])
                 methods)"

definition operationEntries :: "document \<Rightarrow> (string \<times> operationInfo) list" where
  "operationEntries schema =
     concat (map (\<lambda>entry. case snd entry of
                             None \<Rightarrow> []
                           | Some pathItem \<Rightarrow> methodEntries (fst entry) pathItem)
                 (doc_paths schema))"

subsection \<open>Array coercion in the words of the specification\<close>

text \<open>
  The coercion of a string for a parameter of type \<^verbatim>\<open>array\<close>, in the words of the
  specification and of the comment in the code (\<^verbatim>\<open>Try to parse as JSON array or
  comma-separated values\<close>): the string is parsed as a structured list; when that fails,
  which includes a text that is valid JSON but no list, it is split on commas and every
  token is trimmed.
\<close>

definition spec_coerceArrayString :: "string \<Rightarrow> jsval" where
  "spec_coerceArrayString s =
     (case JSON_parse s of
        Some (JArr xs) \<Rightarrow> JArr xs
      | _ \<Rightarrow> JArr (map (\<lambda>t. JStr (trim t)) (split (CHR '','') s)))"

subsection \<open>Parameters that are missing or fail coercion\<close>







subsection \<open>Content types\<close>

definition preferenceOrder :: "string list" where
  "preferenceOrder =
     [''application/json'', ''application/xml'', ''text/xml'',
      ''application/x-www-form-urlencoded'', ''multipart/form-data'']"

definition declaredContentTypes :: "requestBodyObject \<Rightarrow> string list" where
  "declaredContentTypes requestBody =
     map fst (case rb_content requestBody of None \<Rightarrow> [] | Some c \<Rightarrow> c)"

subsection \<open>Concrete inputs\<close>

text \<open>
  The properties below hold for every platform and every transport. Where one is
  evaluated at a concrete input, the parameters are these: numbers are printed as
  integers, the two encoders leave unreserved characters as they are, and every request
  is answered with status 200.
\<close>

definition examplePlatform :: platform where
  "examplePlatform =
     \<lparr>numberToString =
        (\<lambda>n. case n of
                NaN \<Rightarrow> ''NaN''
              | PosInfinity \<Rightarrow> ''Infinity''
              | NegInfinity \<Rightarrow> ''-Infinity''
              | Fin q \<Rightarrow> (if q < 0 then ''-'' else []) @ natToString (nat \<lfloor>\<bar>q\<bar>\<rfloor>)),
      encodeURIComponent = (\<lambda>s. s),
      urlSearchParamsToString = (\<lambda>kvs. join ''&'' (map (\<lambda>(k, v). k @ ''='' @ v) kvs))\<rparr>"

definition exampleTransport :: "axiosRequestConfig \<Rightarrow> failure + axiosResponse" where
  "exampleTransport config =
     Inr \<lparr>resp_status = 200, resp_statusText = ''OK'', resp_headers = [], resp_data = JNull,
          resp_url = Some (cfg_url config), resp_method = Some (cfg_method config)\<rparr>"

definition noOperation :: operationObject where
  "noOperation = \<lparr>op_operationId = None, op_parameters = None, op_requestBody = None\<rparr>"

definition emptyPathItem :: pathItemObject where
  "emptyPathItem =
     \<lparr>pi_get = None, pi_post = None, pi_put = None, pi_patch = None, pi_delete = None,
      pi_options = None, pi_head = None, pi_parameters = None\<rparr>"

text \<open>
  The document of the test \<^verbatim>\<open>should generate operation IDs when missing\<close>: one path with
  a \<^verbatim>\<open>get\<close> that has no identifier, and no server.
\<close>

definition complexPathDocument :: document where
  "complexPathDocument =
     \<lparr>doc_servers = None,
      doc_paths = [(''/api/v1/complex-path/{id}'', Some (emptyPathItem\<lparr>pi_get := Some noOperation\<rparr>))]\<rparr>"

text \<open>A document with a server, in which two operations carry the identifier \<^verbatim>\<open>dup\<close>.\<close>

definition duplicateDocument :: document where
  "duplicateDocument =
     \<lparr>doc_servers = Some [\<lparr>server_url = ''https://api.example.com''\<rparr>],
      doc_paths =
        [(''/a'', Some (emptyPathItem\<lparr>pi_get := Some (noOperation\<lparr>op_operationId := Some ''dup''\<rparr>)\<rparr>)),
         (''/b'', Some (emptyPathItem\<lparr>pi_post := Some (noOperation\<lparr>op_operationId := Some ''dup''\<rparr>)\<rparr>))]\<rparr>"

text \<open>
  A document with one operation \<^verbatim>\<open>upload\<close>, whose body is declared as
  \<^verbatim>\<open>multipart/form-data\<close> and as \<^verbatim>\<open>application/json\<close>, in this order, and which declares
  the header parameter \<^verbatim>\<open>Content-Type\<close>.
\<close>

definition uploadBody :: requestBodyObject where
  "uploadBody =
     \<lparr>rb_content = Some [(''multipart/form-data'', \<lparr>media_schema = None\<rparr>),
                         (''application/json'', \<lparr>media_schema = None\<rparr>)],
      rb_required = True\<rparr>"

definition uploadDocument :: document where
  "uploadDocument =
     \<lparr>doc_servers = Some [\<lparr>server_url = ''https://api.example.com''\<rparr>],
      doc_paths =
        [(''/upload'',
          Some (emptyPathItem\<lparr>pi_post := Some
            \<lparr>op_operationId = Some ''upload'',
             op_parameters = Some
               [\<lparr>param_name = ''Content-Type'', param_in = ''header'', param_required = False,
                 param_schema = Some \<lparr>schema_type = Some ''string''\<rparr>\<rparr>],
             op_requestBody = Some uploadBody\<rparr>\<rparr>))]\<rparr>"

definition uploadClient :: apiClient where
  "uploadClient = fst (initialize (newClient \<lparr>opt_baseUrl = None\<rparr> Map.empty) uploadDocument)"



section \<open>Schema resolution\<close>

text \<open>
  Modelled from the spec: the schema resolver of \<^verbatim>\<open>tool-generator.ts\<close>, which is not among
  the sources; only its tests are. The schema fragments are the closed variant type of the
  specification: a scalar (its type, its enum values, its description), an object (its
  properties, its required names, its description), an array (its item schema), a
  composition (its keyword and members) and a reference (the name of a schema of the
  definitions table). The additional-properties policy of an object plays no part in
  resolution as the specification describes it and is left out.
\<close>

datatype compositionKind = OneOf | AnyOf | AllOf

datatype schemaNode =
    Scalar "string option" "string list" "string option"
  | ObjectSchema "(string \<times> schemaNode) list" "string list" "string option"
  | ArraySchema schemaNode "string option"
  | Composition compositionKind "schemaNode list" "string option"
  | Reference string

text \<open>
  Modelled from the spec: the permissive, untyped placeholder to which a schema degrades
  that cannot be interpreted; here a reference that the definitions table does not hold.
\<close>

definition placeholder :: schemaNode where
  "placeholder = Scalar None [] None"

text \<open>
  Modelled from the spec: the terminal stub, which reproduces only the declared type of
  the target and its property names and does not recurse into the properties.
\<close>

fun stub :: "schemaNode \<Rightarrow> schemaNode" where
  "stub (Scalar t e d) = Scalar t [] None"
| "stub (ObjectSchema props req d) = ObjectSchema (map (\<lambda>p. (fst p, placeholder)) props) [] None"
| "stub (ArraySchema i d) = ArraySchema placeholder None"
| "stub (Composition k ms d) = placeholder"
| "stub (Reference p) = placeholder"

text \<open>
  Modelled from the spec: the notes appended to a description, the count and kind of the
  alternatives of a composition and the allowed values of an enum. The specification does
  not fix what separates the note from the description; a space is taken.
\<close>

definition appendNote :: "string option \<Rightarrow> string \<Rightarrow> string option" where
  "appendNote d n = (case d of None \<Rightarrow> Some n | Some s \<Rightarrow> Some (s @ '' '' @ n))"

definition kindWords :: "compositionKind \<Rightarrow> string" where
  "kindWords k = (case k of OneOf \<Rightarrow> ''one of'' | AnyOf \<Rightarrow> ''any of'' | AllOf \<Rightarrow> ''all of'')"

text \<open>
  Modelled from the spec: resolution with the definitions table, the stack of the
  references under expansion and the number of references that may still be followed
  before the hard depth bound is reached. A reference that is on the stack, or met when
  the bound is reached, becomes the stub of its target; any other reference is replaced
  by its resolved target, with the reference pushed. An object resolves its properties
  and keeps its required names, an array resolves its items, a composition resolves its
  members and notes their count and kind, a schema with an enum lists the allowed values.
  The recursion ends because every call either follows a reference, which uses up one of
  the remaining ones, or descends into a part of the schema.
\<close>

fun resolveWithin ::
  "nat \<Rightarrow> (string \<times> schemaNode) list \<Rightarrow> string list \<Rightarrow> schemaNode \<Rightarrow> schemaNode" where
  "resolveWithin remaining defs pathStack (Reference p) =
     (case map_of defs p of
        None \<Rightarrow> placeholder
      | Some target \<Rightarrow>
          if p \<in> set pathStack then stub target
          else (case remaining of
                  0 \<Rightarrow> stub target
                | Suc r \<Rightarrow> resolveWithin r defs (p # pathStack) target))"
| "resolveWithin remaining defs pathStack (ObjectSchema props req d) =
     ObjectSchema (map (\<lambda>p. (fst p, resolveWithin remaining defs pathStack (snd p))) props) req d"
| "resolveWithin remaining defs pathStack (ArraySchema i d) =
     ArraySchema (resolveWithin remaining defs pathStack i) d"
| "resolveWithin remaining defs pathStack (Composition k ms d) =
     Composition k (map (resolveWithin remaining defs pathStack) ms)
       (appendNote d (kindWords k @ '' '' @ natToString (length ms) @ '' variants''))"
| "resolveWithin remaining defs pathStack (Scalar t e d) =
     Scalar t e (if e = [] then d else appendNote d (''Allowed values: '' @ join '', '' e))"

text \<open>
  Modelled from the spec: \<^verbatim>\<open>resolve(schema, pathStack)\<close>. The depth bound, whose value the
  specification does not give, and the definitions table are parameters; the depth is
  the length of the stack.
\<close>

definition resolve ::
  "nat \<Rightarrow> (string \<times> schemaNode) list \<Rightarrow> schemaNode \<Rightarrow> string list \<Rightarrow> schemaNode" where
  "resolve maxDepth defs schema pathStack =
     resolveWithin (maxDepth - length pathStack) defs pathStack schema"

text \<open>A tree without references, the height of a tree and the property names of an object.\<close>

fun noReference :: "schemaNode \<Rightarrow> bool" where
  "noReference (Scalar t e d) = True"
| "noReference (ObjectSchema props req d) = list_all (\<lambda>p. noReference (snd p)) props"
| "noReference (ArraySchema i d) = noReference i"
| "noReference (Composition k ms d) = list_all noReference ms"
| "noReference (Reference p) = False"

definition maxList :: "nat list \<Rightarrow> nat" where
  "maxList xs = foldr max xs 0"

fun height :: "schemaNode \<Rightarrow> nat" where
  "height (Scalar t e d) = 1"
| "height (ObjectSchema props req d) = Suc (maxList (map (\<lambda>p. height (snd p)) props))"
| "height (ArraySchema i d) = Suc (height i)"
| "height (Composition k ms d) = Suc (maxList (map height ms))"
| "height (Reference p) = 1"

definition defsHeight :: "(string \<times> schemaNode) list \<Rightarrow> nat" where
  "defsHeight defs = maxList (map (\<lambda>p. height (snd p)) defs)"

fun propertyNames :: "schemaNode \<Rightarrow> string list" where
  "propertyNames (ObjectSchema props req d) = map fst props"
| "propertyNames _ = []"

text \<open>
  The definitions of the integration test on circular dependencies: \<^verbatim>\<open>Entity\<close> refers to
  itself through \<^verbatim>\<open>parent\<close> and \<^verbatim>\<open>children\<close>, and to \<^verbatim>\<open>Metadata\<close>, which refers back.
\<close>

definition entityDefs :: "(string \<times> schemaNode) list" where
  "entityDefs =
     [(''Entity'',
       ObjectSchema
         [(''id'', Scalar (Some ''string'') [] None),
          (''parent'', Reference ''Entity''),
          (''children'', ArraySchema (Reference ''Entity'') None),
          (''metadata'', Reference ''Metadata'')]
         [''id''] None),
      (''Metadata'',
       ObjectSchema
         [(''tags'', ArraySchema (Scalar (Some ''string'') [] None) None),
          (''entity'', Reference ''Entity'')]
         [] None)]"

section \<open>Properties\<close>

subsection \<open>The base URL\<close>

lemma truthyString_simps:
  "truthyString None = False" "truthyString (Some s) = (s \<noteq> [])"
  by (simp_all add: truthyString_def)

lemma parseOperations_baseUrl: "c_baseUrl (parseOperations schema c) = c_baseUrl c"
  by (simp add: parseOperations_def)

text \<open>
  Claim C7. \<^verbatim>\<open>initialize\<close> resolves the base URL as the explicit override when one is
  provided, else as the first declared server URL of the document; when neither exists,
  initialization fails with the configuration error before any tool is usable.

  An override is provided when \<^verbatim>\<open>options.baseUrl\<close> is truthy, that is a non-empty
  string: the code tests it with \<^verbatim>\<open>||\<close>, and its error message calls the absent and
  the empty override alike \<^verbatim>\<open>no base URL provided\<close>. The four parts: the override wins;
  without an override the first server URL is taken; without either the error is thrown
  and the base URL and the operation index stay as they were; a client that was just
  constructed then has no operation, so that every call of \<^verbatim>\<open>executeOperation\<close> fails
  with \<^verbatim>\<open>not found\<close> and sends no request.
\<close>

theorem initialize_base_url:
  "(opt_baseUrl (c_options c) = Some u \<and> u \<noteq> [] \<longrightarrow>
      snd (initialize c schema) = None \<and> c_baseUrl (fst (initialize c schema)) = Some u)
   \<and> ((opt_baseUrl (c_options c) = None \<or> opt_baseUrl (c_options c) = Some []) \<and>
        doc_servers schema = Some (s # ss) \<longrightarrow>
      snd (initialize c schema) = None \<and>
      c_baseUrl (fst (initialize c schema)) = Some (server_url s))
   \<and> ((opt_baseUrl (c_options c) = None \<or> opt_baseUrl (c_options c) = Some []) \<and>
        (doc_servers schema = None \<or> doc_servers schema = Some []) \<longrightarrow>
      snd (initialize c schema) =
        Some (Error ''No server URL found in OpenAPI schema and no base URL provided'') \<and>
      c_baseUrl (fst (initialize c schema)) = c_baseUrl c \<and>
      c_operations (fst (initialize c schema)) = c_operations c)
   \<and> ((opt_baseUrl opts = None \<or> opt_baseUrl opts = Some []) \<and>
        (doc_servers schema = None \<or> doc_servers schema = Some []) \<longrightarrow>
      executeOperation pf request (fst (initialize (newClient opts common) schema)) operationId args =
        (Inl (Error (''Operation '' @ operationId @ '' not found'')), []))"
  by (cases "opt_baseUrl (c_options c)"; cases "opt_baseUrl opts")
     (auto simp: initialize_def getBaseUrl_def truthyString_simps parseOperations_baseUrl Let_def
        executeOperation_def newClient_def)

theorem initialize_base_url_witness:
  "snd (initialize (newClient \<lparr>opt_baseUrl = Some ''http://localhost:8080''\<rparr> Map.empty) duplicateDocument) = None
   \<and> c_baseUrl (fst (initialize (newClient \<lparr>opt_baseUrl = Some ''http://localhost:8080''\<rparr> Map.empty) duplicateDocument))
       = Some ''http://localhost:8080''
   \<and> snd (initialize (newClient \<lparr>opt_baseUrl = None\<rparr> Map.empty) duplicateDocument) = None
   \<and> c_baseUrl (fst (initialize (newClient \<lparr>opt_baseUrl = None\<rparr> Map.empty) duplicateDocument))
       = Some ''https://api.example.com''
   \<and> snd (initialize (newClient \<lparr>opt_baseUrl = None\<rparr> Map.empty) complexPathDocument)
       = Some (Error ''No server URL found in OpenAPI schema and no base URL provided'')
   \<and> executeOperation examplePlatform exampleTransport
        (fst (initialize (newClient \<lparr>opt_baseUrl = None\<rparr> Map.empty) complexPathDocument))
        ''get__api_v1_complex_path__id_'' Map.empty
       = (Inl (Error ''Operation get__api_v1_complex_path__id_ not found''), [])"
proof -
  let ?c1 = "newClient \<lparr>opt_baseUrl = Some ''http://localhost:8080''\<rparr> Map.empty"
  let ?c2 = "newClient \<lparr>opt_baseUrl = None\<rparr> Map.empty"
  have a: "opt_baseUrl (c_options ?c1) = Some ''http://localhost:8080'' \<and> ''http://localhost:8080'' \<noteq> []"
    by (simp add: newClient_def)
  have b: "(opt_baseUrl (c_options ?c2) = None \<or> opt_baseUrl (c_options ?c2) = Some []) \<and>
           doc_servers duplicateDocument = Some (\<lparr>server_url = ''https://api.example.com''\<rparr> # [])"
    by (simp add: newClient_def duplicateDocument_def)
  have c: "(opt_baseUrl (c_options ?c2) = None \<or> opt_baseUrl (c_options ?c2) = Some []) \<and>
           (doc_servers complexPathDocument = None \<or> doc_servers complexPathDocument = Some [])"
    by (simp add: newClient_def complexPathDocument_def)
  have d: "(opt_baseUrl \<lparr>opt_baseUrl = None\<rparr> = None \<or> opt_baseUrl \<lparr>opt_baseUrl = None\<rparr> = Some []) \<and>
           (doc_servers complexPathDocument = None \<or> doc_servers complexPathDocument = Some [])"
    by (simp add: complexPathDocument_def)
  note t1 = initialize_base_url [of ?c1 "''http://localhost:8080''" duplicateDocument]
  note t2 = initialize_base_url [of ?c2 _ duplicateDocument "\<lparr>server_url = ''https://api.example.com''\<rparr>" "[]"]
  note t3 = initialize_base_url [of ?c2 _ complexPathDocument _ _ "\<lparr>opt_baseUrl = None\<rparr>"
      examplePlatform exampleTransport Map.empty "''get__api_v1_complex_path__id_''" Map.empty]
  show ?thesis
    using a b c d t1 t2 t3 by simp
qed

subsection \<open>Generated identifiers\<close>

lemma methods_lower_case: "list_all (\<lambda>m. toLowerCase m = m) methods"
  by code_simp

lemma operationIdOf_fallback:
  "op_operationId operation = None \<or> op_operationId operation = Some [] \<Longrightarrow>
   operationIdOf method pathKey operation = generatedOperationId method pathKey"
  by (auto simp: operationIdOf_def truthyString_simps)

text \<open>
  Claim C2, as stated, fails. It says that the generated identifier is the lower-cased
  method, two underscores, then the path template with every run of non-alphanumeric
  characters collapsed to a single underscore, and that \<^verbatim>\<open>get\<close> with
  \<^verbatim>\<open>/api/v1/complex-path/{id}\<close> yields \<^verbatim>\<open>get__api_v1_complex_path__id_\<close>. The code
  yields the identifier of the example; the rule in words yields another one, with three
  underscores after the method and one between \<^verbatim>\<open>path\<close> and \<^verbatim>\<open>id\<close>.
\<close>

theorem generated_id_counterexample:
  "operationIdOf ''get'' ''/api/v1/complex-path/{id}'' noOperation = ''get__api_v1_complex_path__id_''
   \<and> spec_generatedOperationId ''get'' ''/api/v1/complex-path/{id}'' = ''get___api_v1_complex_path_id_''
   \<and> operationIdOf ''get'' ''/api/v1/complex-path/{id}'' noOperation
       \<noteq> spec_generatedOperationId ''get'' ''/api/v1/complex-path/{id}''"
  by code_simp

text \<open>
  Claim C2, amended. For every method of the fixed list and every path whose operation
  has no identifier (absent or empty), the operation is stored under the generated
  identifier, which is the method name (already in lower case), one underscore, then the
  path template with each character that is no ASCII letter or digit replaced by one
  underscore, runs not being collapsed: the identifier is as long as method, separator
  and path together, and agrees with the path at every letter and digit. In particular
  \<^verbatim>\<open>get\<close> with \<^verbatim>\<open>/api/v1/complex-path/{id}\<close> yields \<^verbatim>\<open>get__api_v1_complex_path__id_\<close>.
\<close>

theorem generated_id_per_character:
  "method \<in> set methods \<and> pathItemMethod pathItem method = Some operation \<and>
   (op_operationId operation = None \<or> op_operationId operation = Some []) \<longrightarrow>
     parseMethod pathKey pathItem method ops (generatedOperationId method pathKey)
       = Some (operationInfoOf method pathKey pathItem operation)
     \<and> operationIdOf method pathKey operation = generatedOperationId method pathKey
     \<and> toLowerCase method = method
     \<and> length (generatedOperationId method pathKey) = length method + 1 + length pathKey
     \<and> take (length method) (generatedOperationId method pathKey) = method
     \<and> generatedOperationId method pathKey ! length method = CHR ''_''
     \<and> (\<forall>i < length pathKey.
           generatedOperationId method pathKey ! (length method + 1 + i)
             = (if isAlphaNumeric (pathKey ! i) then pathKey ! i else CHR ''_''))
     \<and> generatedOperationId ''get'' ''/api/v1/complex-path/{id}'' = ''get__api_v1_complex_path__id_''"
proof (intro impI, elim conjE)
  assume m: "method \<in> set methods"
    and op: "pathItemMethod pathItem method = Some operation"
    and noid: "op_operationId operation = None \<or> op_operationId operation = Some []"
  have id: "operationIdOf method pathKey operation = generatedOperationId method pathKey"
    using noid by (rule operationIdOf_fallback)
  have stored: "parseMethod pathKey pathItem method ops (generatedOperationId method pathKey)
       = Some (operationInfoOf method pathKey pathItem operation)"
    by (simp add: parseMethod_def op id)
  have lower: "toLowerCase method = method"
    using methods_lower_case m by (simp add: list_all_iff)
  have len: "length (generatedOperationId method pathKey) = length method + 1 + length pathKey"
    by (simp add: generatedOperationId_def)
  have pre: "take (length method) (generatedOperationId method pathKey) = method"
    by (simp add: generatedOperationId_def)
  have sep: "generatedOperationId method pathKey ! length method = CHR ''_''"
    by (simp add: generatedOperationId_def nth_append)
  have chars: "\<forall>i < length pathKey.
           generatedOperationId method pathKey ! (length method + 1 + i)
             = (if isAlphaNumeric (pathKey ! i) then pathKey ! i else CHR ''_'')"
    by (simp add: generatedOperationId_def nth_append)
  have ex: "generatedOperationId ''get'' ''/api/v1/complex-path/{id}'' = ''get__api_v1_complex_path__id_''"
    by code_simp
  show "parseMethod pathKey pathItem method ops (generatedOperationId method pathKey)
       = Some (operationInfoOf method pathKey pathItem operation)
     \<and> operationIdOf method pathKey operation = generatedOperationId method pathKey
     \<and> toLowerCase method = method
     \<and> length (generatedOperationId method pathKey) = length method + 1 + length pathKey
     \<and> take (length method) (generatedOperationId method pathKey) = method
     \<and> generatedOperationId method pathKey ! length method = CHR ''_''
     \<and> (\<forall>i < length pathKey.
           generatedOperationId method pathKey ! (length method + 1 + i)
             = (if isAlphaNumeric (pathKey ! i) then pathKey ! i else CHR ''_''))
     \<and> generatedOperationId ''get'' ''/api/v1/complex-path/{id}'' = ''get__api_v1_complex_path__id_''"
    using stored id lower len pre sep chars ex by blast
qed

theorem generated_id_per_character_witness:
  "''get'' \<in> set methods
   \<and> pathItemMethod (emptyPathItem\<lparr>pi_get := Some noOperation\<rparr>) ''get'' = Some noOperation
   \<and> op_operationId noOperation = None
   \<and> parseMethod ''/users/{userId}/posts'' (emptyPathItem\<lparr>pi_get := Some noOperation\<rparr>) ''get'' Map.empty
        ''get__users__userId__posts''
       = Some (operationInfoOf ''get'' ''/users/{userId}/posts'' (emptyPathItem\<lparr>pi_get := Some noOperation\<rparr>) noOperation)
   \<and> operationIdOf ''get'' ''/users/{userId}/posts'' noOperation = ''get__users__userId__posts''
   \<and> length ''get__users__userId__posts'' = length ''get'' + 1 + length ''/users/{userId}/posts''
   \<and> ''get__users__userId__posts'' ! (length ''get'' + 1 + 7) = CHR ''_''"
proof -
  have g: "generatedOperationId ''get'' ''/users/{userId}/posts'' = ''get__users__userId__posts''"
    by code_simp
  have h: "''get'' \<in> set methods
     \<and> pathItemMethod (emptyPathItem\<lparr>pi_get := Some noOperation\<rparr>) ''get'' = Some noOperation
     \<and> (op_operationId noOperation = None \<or> op_operationId noOperation = Some [])"
    by (simp add: methods_def pathItemMethod_def noOperation_def)
  have n: "op_operationId noOperation = None"
    by (simp add: noOperation_def)
  note t = generated_id_per_character [of "''get''" "emptyPathItem\<lparr>pi_get := Some noOperation\<rparr>"
        noOperation "''/users/{userId}/posts''" Map.empty, THEN mp, OF h]
  have brace: "(7::nat) < length ''/users/{userId}/posts'' \<and>
               \<not> isAlphaNumeric (''/users/{userId}/posts'' ! 7)"
    by code_simp
  have c: "''get__users__userId__posts'' ! (length ''get'' + 1 + 7) = CHR ''_''"
    using t [THEN conjunct2, THEN conjunct2, THEN conjunct2, THEN conjunct2, THEN conjunct2,
        THEN conjunct2, THEN conjunct1, THEN spec, of 7] brace
    unfolding g by simp
  show ?thesis
    using h n t c unfolding g by simp
qed

subsection \<open>Operations with the same identifier\<close>

lemma fold_set_entries:
  "fold (\<lambda>e m. m(fst e \<mapsto> snd e)) es m = m ++ map_of (rev es)"
proof (induction es arbitrary: m)
  case Nil
  then show ?case by simp
next
  case (Cons e es)
  have "fold (\<lambda>e m. m(fst e \<mapsto> snd e)) (e # es) m = m(fst e \<mapsto> snd e) ++ map_of (rev es)"
    by (simp only: fold_simps o_apply Cons.IH)
  also have "\<dots> = m ++ map_of (rev (e # es))"
    by (cases e) (simp add: fun_eq_iff map_add_def split: option.splits)
  finally show ?case .
qed

lemma fold_parseMethod:
  "fold (parseMethod pathKey pathItem) ms ops =
   fold (\<lambda>e m. m(fst e \<mapsto> snd e))
     (concat (map (\<lambda>method. case pathItemMethod pathItem method of
                              None \<Rightarrow> []
                            | Some operation \<Rightarrow>
                                [(operationIdOf method pathKey operation,
                                  operationInfoOf method pathKey pathItem operation)]) ms)) ops"
  by (induction ms arbitrary: ops) (auto simp: parseMethod_def split: option.splits)

lemma parsePath_entries:
  "parsePath entry ops =
   fold (\<lambda>e m. m(fst e \<mapsto> snd e))
     (case snd entry of None \<Rightarrow> [] | Some pathItem \<Rightarrow> methodEntries (fst entry) pathItem) ops"
  by (simp add: parsePath_def methodEntries_def fold_parseMethod split: option.splits)

lemma fold_parsePath:
  "fold parsePath ps ops =
   fold (\<lambda>e m. m(fst e \<mapsto> snd e))
     (concat (map (\<lambda>entry. case snd entry of
                             None \<Rightarrow> []
                           | Some pathItem \<Rightarrow> methodEntries (fst entry) pathItem) ps)) ops"
  by (induction ps arbitrary: ops) (simp_all add: parsePath_entries)

lemma parseOperations_entries:
  "c_operations (parseOperations schema c) = c_operations c ++ map_of (rev (operationEntries schema))"
  by (simp add: parseOperations_def operationEntries_def fold_parsePath fold_set_entries)

lemma map_of_rev_last:
  "k \<notin> fst ` set after \<Longrightarrow> map_of (rev (before @ (k, v) # after)) k = Some v"
proof -
  assume "k \<notin> fst ` set after"
  then have "map_of (rev after) k = None"
    by (simp add: map_of_eq_None_iff)
  then show ?thesis
    by (simp add: map_add_def)
qed

text \<open>
  Claim C8. If two operations of the document produce the same identifier, the index
  keeps the entry parsed last: the operations before it with that identifier are
  overwritten, so that the index can have fewer entries than the document has operations.

  The operations are taken in the order of parsing. The last operation with an identifier
  is the one the index holds for it, which is the one \<^verbatim>\<open>executeOperation\<close> looks up;
  starting from the empty index, the index has at most as many entries as the document
  has operations, and fewer as soon as two operations share an identifier.
\<close>

theorem parseOperations_keeps_last:
  "(operationEntries schema = before @ (k, v) # after \<and> k \<notin> fst ` set after \<longrightarrow>
      c_operations (parseOperations schema c) k = Some v)
   \<and> (c_operations c = Map.empty \<longrightarrow>
        card (dom (c_operations (parseOperations schema c))) \<le> length (operationEntries schema))
   \<and> (c_operations c = Map.empty \<and> \<not> distinct (map fst (operationEntries schema)) \<longrightarrow>
        card (dom (c_operations (parseOperations schema c))) < length (operationEntries schema))"
proof (intro conjI impI)
  assume "operationEntries schema = before @ (k, v) # after \<and> k \<notin> fst ` set after"
  then show "c_operations (parseOperations schema c) k = Some v"
    using map_of_rev_last [of k after before v] by (simp add: parseOperations_entries map_add_def)
next
  assume e: "c_operations c = Map.empty"
  have "dom (c_operations (parseOperations schema c)) = set (map fst (operationEntries schema))"
    by (simp add: parseOperations_entries e dom_map_of_conv_image_fst)
  then show "card (dom (c_operations (parseOperations schema c))) \<le> length (operationEntries schema)"
    using card_length [of "map fst (operationEntries schema)"] by simp
next
  assume e: "c_operations c = Map.empty \<and> \<not> distinct (map fst (operationEntries schema))"
  have d: "dom (c_operations (parseOperations schema c)) = set (map fst (operationEntries schema))"
    using e by (simp add: parseOperations_entries dom_map_of_conv_image_fst)
  have "card (set (map fst (operationEntries schema))) \<noteq> length (map fst (operationEntries schema))"
    using e card_distinct by blast
  then show "card (dom (c_operations (parseOperations schema c))) < length (operationEntries schema)"
    using card_length [of "map fst (operationEntries schema)"] d by simp
qed


theorem parseOperations_keeps_last_witness:
  "operationEntries duplicateDocument =
     [(''dup'', operationInfoOf ''get'' ''/a''
                  (emptyPathItem\<lparr>pi_get := Some (noOperation\<lparr>op_operationId := Some ''dup''\<rparr>)\<rparr>)
                  (noOperation\<lparr>op_operationId := Some ''dup''\<rparr>))] @
     (''dup'', operationInfoOf ''post'' ''/b''
                  (emptyPathItem\<lparr>pi_post := Some (noOperation\<lparr>op_operationId := Some ''dup''\<rparr>)\<rparr>)
                  (noOperation\<lparr>op_operationId := Some ''dup''\<rparr>)) # []
   \<and> c_operations (parseOperations duplicateDocument (newClient \<lparr>opt_baseUrl = None\<rparr> Map.empty)) ''dup''
       = Some (operationInfoOf ''post'' ''/b''
                  (emptyPathItem\<lparr>pi_post := Some (noOperation\<lparr>op_operationId := Some ''dup''\<rparr>)\<rparr>)
                  (noOperation\<lparr>op_operationId := Some ''dup''\<rparr>))
   \<and> length (operationEntries duplicateDocument) = 2
   \<and> card (dom (c_operations (parseOperations duplicateDocument (newClient \<lparr>opt_baseUrl = None\<rparr> Map.empty)))) < 2"
proof -
  let ?a = "(''dup'', operationInfoOf ''get'' ''/a''
                  (emptyPathItem\<lparr>pi_get := Some (noOperation\<lparr>op_operationId := Some ''dup''\<rparr>)\<rparr>)
                  (noOperation\<lparr>op_operationId := Some ''dup''\<rparr>))"
  let ?b = "operationInfoOf ''post'' ''/b''
                  (emptyPathItem\<lparr>pi_post := Some (noOperation\<lparr>op_operationId := Some ''dup''\<rparr>)\<rparr>)
                  (noOperation\<lparr>op_operationId := Some ''dup''\<rparr>)"
  let ?c = "newClient \<lparr>opt_baseUrl = None\<rparr> Map.empty"
  have es: "operationEntries duplicateDocument = [?a] @ (''dup'', ?b) # []"
    by (simp add: operationEntries_def duplicateDocument_def methodEntries_def methods_def
          pathItemMethod_def emptyPathItem_def operationIdOf_def truthyString_simps noOperation_def)
  have fresh: "''dup'' \<notin> fst ` set ([] :: (string \<times> operationInfo) list)"
    by simp
  have empty: "c_operations ?c = Map.empty"
    by (simp add: newClient_def)
  have dup: "\<not> distinct (map fst (operationEntries duplicateDocument))"
    by (simp add: es)
  have len: "length (operationEntries duplicateDocument) = 2"
    by (simp add: es)
  show ?thesis
    using es fresh empty dup len
      parseOperations_keeps_last [of duplicateDocument "[?a]" "''dup''" ?b "[]" ?c]
    by simp
qed

subsection \<open>Coercion of parameter values\<close>

lemma trim_white: "list_all isWhiteSpace s \<Longrightarrow> trim s = []"
proof -
  assume "list_all isWhiteSpace s"
  then have h: "dropWhile isWhiteSpace s = []"
    by (induction s) simp_all
  show ?thesis
    unfolding trim_def h by simp
qed

lemma stringToNumber_white: "list_all isWhiteSpace s \<Longrightarrow> stringToNumber s = Fin 0"
  by (simp add: stringToNumber_def trim_white)

text \<open>
  Claim C9. For every parameter whose declared schema type is \<^verbatim>\<open>integer\<close> or
  \<^verbatim>\<open>number\<close>, the empty string and every string of white space only are coerced to the
  number 0 and raise no coercion error: \<^verbatim>\<open>Number\<close> trims the string and maps the empty
  rest to 0. White space is that of the code units below 256.
\<close>

theorem whitespace_coerces_to_zero:
  "param_schema param = Some schema \<and>
   (schema_type schema = Some ''integer'' \<or> schema_type schema = Some ''number'') \<and>
   list_all isWhiteSpace s \<longrightarrow>
     processParameterValue pf param (JStr s) = Inr (JNum (Fin 0))"
  by (auto simp: processParameterValue_def stringToNumber_white)

theorem whitespace_coerces_to_zero_witness:
  "processParameterValue examplePlatform
     \<lparr>param_name = ''limit'', param_in = ''query'', param_required = False,
      param_schema = Some \<lparr>schema_type = Some ''integer''\<rparr>\<rparr> (JStr '''')
     = Inr (JNum (Fin 0))
   \<and> processParameterValue examplePlatform
     \<lparr>param_name = ''ratio'', param_in = ''query'', param_required = False,
      param_schema = Some \<lparr>schema_type = Some ''number''\<rparr>\<rparr> (JStr [CHR '' '', CHR 0x09, CHR '' ''])
     = Inr (JNum (Fin 0))"
proof -
  let ?p = "\<lparr>param_name = ''limit'', param_in = ''query'', param_required = False,
      param_schema = Some \<lparr>schema_type = Some ''integer''\<rparr>\<rparr>"
  let ?q = "\<lparr>param_name = ''ratio'', param_in = ''query'', param_required = False,
      param_schema = Some \<lparr>schema_type = Some ''number''\<rparr>\<rparr>"
  have a: "param_schema ?p = Some \<lparr>schema_type = Some ''integer''\<rparr> \<and>
     (schema_type \<lparr>schema_type = Some ''integer''\<rparr> = Some ''integer'' \<or>
      schema_type \<lparr>schema_type = Some ''integer''\<rparr> = Some ''number'') \<and>
     list_all isWhiteSpace ''''"
    by simp
  have b: "param_schema ?q = Some \<lparr>schema_type = Some ''number''\<rparr> \<and>
     (schema_type \<lparr>schema_type = Some ''number''\<rparr> = Some ''integer'' \<or>
      schema_type \<lparr>schema_type = Some ''number''\<rparr> = Some ''number'') \<and>
     list_all isWhiteSpace [CHR '' '', CHR 0x09, CHR '' '']"
    by (simp add: isWhiteSpace_def)
  show ?thesis
    using whitespace_coerces_to_zero [of ?p "\<lparr>schema_type = Some ''integer''\<rparr>" "''''" examplePlatform]
      whitespace_coerces_to_zero [of ?q "\<lparr>schema_type = Some ''number''\<rparr>" "[CHR '' '', CHR 0x09, CHR '' '']" examplePlatform]
      a b
    by blast
qed

lemma processParameterValue_array_string:
  "param_schema param = Some schema \<Longrightarrow> schema_type schema = Some ''array'' \<Longrightarrow>
   processParameterValue pf param (JStr s) =
     (case JSON_parse s of
        Some v \<Rightarrow> Inr v
      | None \<Rightarrow> Inr (JArr (map (\<lambda>t. JStr (trim t)) (split (CHR '','') s))))"
  by (simp add: processParameterValue_def)

lemma processParameterValue_array_array:
  "param_schema param = Some schema \<Longrightarrow> schema_type schema = Some ''array'' \<Longrightarrow>
   processParameterValue pf param (JArr xs) = Inr (JArr xs)"
  by (simp add: processParameterValue_def)

lemma parse_abc: "JSON_parse ''a,b,c'' = None"
  by code_simp

lemma split_abc: "map (\<lambda>t. JStr (trim t)) (split (CHR '','') ''a,b,c'') = [JStr ''a'', JStr ''b'', JStr ''c'']"
  by code_simp

lemma parse_spaced: "JSON_parse ''a, b ,c'' = None"
  by code_simp

lemma split_spaced: "map (\<lambda>t. JStr (trim t)) (split (CHR '','') ''a, b ,c'') = [JStr ''a'', JStr ''b'', JStr ''c'']"
  by code_simp

lemma parse_list: "JSON_parse ''[\"a\", \"b\"]'' = Some (JArr [JStr ''a'', JStr ''b''])"
  by code_simp

lemma parse_123: "JSON_parse ''123'' = Some (JNum (Fin 123))"
  by code_simp

lemma parse_true: "JSON_parse ''true'' = Some (JBool True)"
  by code_simp

lemma spec_123: "spec_coerceArrayString ''123'' = JArr [JStr ''123'']"
  by code_simp

text \<open>
  Claim C6. For every parameter whose declared schema type is \<^verbatim>\<open>array\<close>, an array
  value passes through unchanged, and a string value is first parsed as a structured
  list, falling back on parse failure to splitting on commas with each token trimmed; the
  string \<^verbatim>\<open>a,b,c\<close> is coerced to the array of \<^verbatim>\<open>a\<close>, \<^verbatim>\<open>b\<close> and \<^verbatim>\<open>c\<close>.

  The code does this for an array, for a string that is the JSON text of a list and for a
  string that is no JSON text, among them \<^verbatim>\<open>a,b,c\<close>. It does not for a string that is
  valid JSON of another type: the result of \<^verbatim>\<open>JSON.parse\<close> is returned unchecked, so that
  \<^verbatim>\<open>123\<close> is coerced to the number 123, where parsing it as a list fails and the split
  gives the list of the one token \<^verbatim>\<open>123\<close>.
\<close>

theorem array_parameter_coercion:
  "param_schema param = Some schema \<and> schema_type schema = Some ''array'' \<longrightarrow>
     processParameterValue pf param (JArr xs) = Inr (JArr xs)
     \<and> (JSON_parse s = None \<or> JSON_parse s = Some (JArr ys) \<longrightarrow>
          processParameterValue pf param (JStr s) = Inr (spec_coerceArrayString s))
     \<and> (JSON_parse s = None \<longrightarrow>
          processParameterValue pf param (JStr s)
            = Inr (JArr (map (\<lambda>t. JStr (trim t)) (split (CHR '','') s))))
     \<and> processParameterValue pf param (JStr ''a,b,c'') = Inr (JArr [JStr ''a'', JStr ''b'', JStr ''c''])
     \<and> processParameterValue pf param (JStr ''a, b ,c'') = Inr (JArr [JStr ''a'', JStr ''b'', JStr ''c''])
     \<and> processParameterValue pf param (JStr ''[\"a\", \"b\"]'') = Inr (JArr [JStr ''a'', JStr ''b''])
     \<and> processParameterValue pf param (JStr ''123'') = Inr (JNum (Fin 123))
     \<and> spec_coerceArrayString ''123'' = JArr [JStr ''123'']"
proof (intro impI, elim conjE)
  assume p: "param_schema param = Some schema" and t: "schema_type schema = Some ''array''"
  note str = processParameterValue_array_string [OF p t]
  have a: "processParameterValue pf param (JArr xs) = Inr (JArr xs)"
    by (rule processParameterValue_array_array [OF p t])
  have b: "JSON_parse s = None \<or> JSON_parse s = Some (JArr ys) \<longrightarrow>
          processParameterValue pf param (JStr s) = Inr (spec_coerceArrayString s)"
    by (auto simp: str spec_coerceArrayString_def)
  have c: "JSON_parse s = None \<longrightarrow>
          processParameterValue pf param (JStr s)
            = Inr (JArr (map (\<lambda>t. JStr (trim t)) (split (CHR '','') s)))"
    by (simp add: str)
  have d: "processParameterValue pf param (JStr ''a,b,c'') = Inr (JArr [JStr ''a'', JStr ''b'', JStr ''c''])"
    by (simp only: str parse_abc split_abc option.case)
  have e: "processParameterValue pf param (JStr ''a, b ,c'') = Inr (JArr [JStr ''a'', JStr ''b'', JStr ''c''])"
    by (simp only: str parse_spaced split_spaced option.case)
  have f: "processParameterValue pf param (JStr ''[\"a\", \"b\"]'') = Inr (JArr [JStr ''a'', JStr ''b''])"
    by (simp only: str parse_list option.case)
  have g: "processParameterValue pf param (JStr ''123'') = Inr (JNum (Fin 123))"
    by (simp only: str parse_123 option.case)
  show "processParameterValue pf param (JArr xs) = Inr (JArr xs)
     \<and> (JSON_parse s = None \<or> JSON_parse s = Some (JArr ys) \<longrightarrow>
          processParameterValue pf param (JStr s) = Inr (spec_coerceArrayString s))
     \<and> (JSON_parse s = None \<longrightarrow>
          processParameterValue pf param (JStr s)
            = Inr (JArr (map (\<lambda>t. JStr (trim t)) (split (CHR '','') s))))
     \<and> processParameterValue pf param (JStr ''a,b,c'') = Inr (JArr [JStr ''a'', JStr ''b'', JStr ''c''])
     \<and> processParameterValue pf param (JStr ''a, b ,c'') = Inr (JArr [JStr ''a'', JStr ''b'', JStr ''c''])
     \<and> processParameterValue pf param (JStr ''[\"a\", \"b\"]'') = Inr (JArr [JStr ''a'', JStr ''b''])
     \<and> processParameterValue pf param (JStr ''123'') = Inr (JNum (Fin 123))
     \<and> spec_coerceArrayString ''123'' = JArr [JStr ''123'']"
    using a b c d e f g spec_123 by blast
qed

theorem array_parameter_coercion_witness:
  "processParameterValue examplePlatform
     \<lparr>param_name = ''tags'', param_in = ''query'', param_required = False,
      param_schema = Some \<lparr>schema_type = Some ''array''\<rparr>\<rparr> (JArr [JStr ''x'', JNum (Fin 1)])
     = Inr (JArr [JStr ''x'', JNum (Fin 1)])
   \<and> processParameterValue examplePlatform
     \<lparr>param_name = ''tags'', param_in = ''query'', param_required = False,
      param_schema = Some \<lparr>schema_type = Some ''array''\<rparr>\<rparr> (JStr ''x;y'')
     = Inr (JArr [JStr ''x;y''])
   \<and> processParameterValue examplePlatform
     \<lparr>param_name = ''tags'', param_in = ''query'', param_required = False,
      param_schema = Some \<lparr>schema_type = Some ''array''\<rparr>\<rparr> (JStr ''123'')
     = Inr (JNum (Fin 123))
   \<and> spec_coerceArrayString ''123'' = JArr [JStr ''123'']"
proof -
  let ?p = "\<lparr>param_name = ''tags'', param_in = ''query'', param_required = False,
      param_schema = Some \<lparr>schema_type = Some ''array''\<rparr>\<rparr>"
  have a: "param_schema ?p = Some \<lparr>schema_type = Some ''array''\<rparr> \<and>
     schema_type \<lparr>schema_type = Some ''array''\<rparr> = Some ''array''"
    by simp
  have n: "JSON_parse ''x;y'' = None"
    by code_simp
  have sp: "map (\<lambda>t. JStr (trim t)) (split (CHR '','') ''x;y'') = [JStr ''x;y'']"
    by code_simp
  note t = array_parameter_coercion [of ?p "\<lparr>schema_type = Some ''array''\<rparr>" examplePlatform
      "[JStr ''x'', JNum (Fin 1)]" "''x;y''", THEN mp, OF a]
  have b: "processParameterValue examplePlatform ?p (JArr [JStr ''x'', JNum (Fin 1)])
     = Inr (JArr [JStr ''x'', JNum (Fin 1)])"
    by (rule t [THEN conjunct1])
  have c: "processParameterValue examplePlatform ?p (JStr ''x;y'') = Inr (JArr [JStr ''x;y''])"
    using t [THEN conjunct2, THEN conjunct2, THEN conjunct1, THEN mp, OF n] sp by simp
  have d: "processParameterValue examplePlatform ?p (JStr ''123'') = Inr (JNum (Fin 123))
     \<and> spec_coerceArrayString ''123'' = JArr [JStr ''123'']"
    using t by blast
  show ?thesis
    using b c d by blast
qed

text \<open>
  Claim C10. For every parameter whose declared schema type is \<^verbatim>\<open>array\<close>, a string
  value that is valid JSON of a type other than array is coerced to the parsed value:
  \<^verbatim>\<open>123\<close> to the number 123 and \<^verbatim>\<open>true\<close> to the boolean. The coerced value of an
  array parameter is therefore not always an array.
\<close>

theorem array_parameter_json_scalar:
  "param_schema param = Some schema \<and> schema_type schema = Some ''array'' \<longrightarrow>
     (JSON_parse s = Some v \<longrightarrow> processParameterValue pf param (JStr s) = Inr v)
     \<and> processParameterValue pf param (JStr ''123'') = Inr (JNum (Fin 123))
     \<and> processParameterValue pf param (JStr ''true'') = Inr (JBool True)"
proof (intro impI, elim conjE)
  assume p: "param_schema param = Some schema" and t: "schema_type schema = Some ''array''"
  note str = processParameterValue_array_string [OF p t]
  have a: "JSON_parse s = Some v \<longrightarrow> processParameterValue pf param (JStr s) = Inr v"
    by (simp add: str)
  have b: "processParameterValue pf param (JStr ''123'') = Inr (JNum (Fin 123))"
    by (simp only: str parse_123 option.case)
  have c: "processParameterValue pf param (JStr ''true'') = Inr (JBool True)"
    by (simp only: str parse_true option.case)
  show "(JSON_parse s = Some v \<longrightarrow> processParameterValue pf param (JStr s) = Inr v)
     \<and> processParameterValue pf param (JStr ''123'') = Inr (JNum (Fin 123))
     \<and> processParameterValue pf param (JStr ''true'') = Inr (JBool True)"
    using a b c by blast
qed

theorem array_parameter_json_scalar_witness:
  "processParameterValue examplePlatform
     \<lparr>param_name = ''ids'', param_in = ''query'', param_required = True,
      param_schema = Some \<lparr>schema_type = Some ''array''\<rparr>\<rparr> (JStr ''123'')
     = Inr (JNum (Fin 123))
   \<and> processParameterValue examplePlatform
     \<lparr>param_name = ''ids'', param_in = ''query'', param_required = True,
      param_schema = Some \<lparr>schema_type = Some ''array''\<rparr>\<rparr> (JStr ''true'')
     = Inr (JBool True)
   \<and> JSON_parse ''123'' = Some (JNum (Fin 123))"
proof -
  let ?p = "\<lparr>param_name = ''ids'', param_in = ''query'', param_required = True,
      param_schema = Some \<lparr>schema_type = Some ''array''\<rparr>\<rparr>"
  have a: "param_schema ?p = Some \<lparr>schema_type = Some ''array''\<rparr> \<and>
     schema_type \<lparr>schema_type = Some ''array''\<rparr> = Some ''array''"
    by simp
  show ?thesis
    using a parse_123
      array_parameter_json_scalar [of ?p "\<lparr>schema_type = Some ''array''\<rparr>" "''123''" "JNum (Fin 123)" examplePlatform]
    by blast
qed

subsection \<open>The content type of the body\<close>

lemma determineContentType_caller:
  "headers ''Content-Type'' = Some v \<and> v \<noteq> [] \<longrightarrow>
   determineContentType requestBody headers = Some v"
  by (simp add: determineContentType_def truthyString_simps Let_def)

lemma determineContentType_caller_lower:
  "(headers ''Content-Type'' = None \<or> headers ''Content-Type'' = Some []) \<and>
   headers ''content-type'' = Some v \<and> v \<noteq> [] \<longrightarrow>
   determineContentType requestBody headers = Some v"
proof
  assume a: "(headers ''Content-Type'' = None \<or> headers ''Content-Type'' = Some []) \<and>
   headers ''content-type'' = Some v \<and> v \<noteq> []"
  then have e: "\<not> truthyString (headers ''Content-Type'')" "truthyString (headers ''content-type'')"
    by (auto simp: truthyString_simps)
  show "determineContentType requestBody headers = Some v"
    using a by (simp add: determineContentType_def Let_def e(1) truthyString_simps)
qed

lemma determineContentType_truthy_header:
  "truthyString (headers ''Content-Type'') \<Longrightarrow>
   determineContentType requestBody headers = headers ''Content-Type''"
  by (simp add: determineContentType_def Let_def)

lemma determineContentType_declared:
  "(headers ''Content-Type'' = None \<or> headers ''Content-Type'' = Some []) \<and>
   (headers ''content-type'' = None \<or> headers ''content-type'' = Some []) \<longrightarrow>
   determineContentType requestBody headers =
     (case find (\<lambda>t. t \<in> set (declaredContentTypes requestBody)) preferenceOrder of
        Some t \<Rightarrow> Some t
      | None \<Rightarrow> (case declaredContentTypes requestBody of [] \<Rightarrow> None | t # _ \<Rightarrow> Some t))"
proof
  assume "(headers ''Content-Type'' = None \<or> headers ''Content-Type'' = Some []) \<and>
   (headers ''content-type'' = None \<or> headers ''content-type'' = Some [])"
  then have e: "\<not> truthyString (headers ''Content-Type'')" "\<not> truthyString (headers ''content-type'')"
    by (auto simp: truthyString_simps)
  show "determineContentType requestBody headers =
     (case find (\<lambda>t. t \<in> set (declaredContentTypes requestBody)) preferenceOrder of
        Some t \<Rightarrow> Some t
      | None \<Rightarrow> (case declaredContentTypes requestBody of [] \<Rightarrow> None | t # _ \<Rightarrow> Some t))"
    by (simp add: determineContentType_def Let_def e preferenceOrder_def declaredContentTypes_def)
qed

lemma buildRequest_content_type:
  "buildRequest pf c info args = Inr config \<and>
        processParameters pf args (oi_parameters info)
          \<lparr>ls_url = (case c_baseUrl c of None \<Rightarrow> ''undefined'' | Some b \<Rightarrow> b) @ oi_path info,
           ls_queryParams = Map.empty, ls_headers = Map.empty, ls_missing = []\<rparr> = Inr st \<and>
        oi_requestBody info = Some requestBody \<and> args ''body'' = Some bodyArg \<and>
        determineContentType requestBody (ls_headers st) = Some t \<and> t \<noteq> [] \<longrightarrow>
      cfg_headers config ''Content-Type'' = Some t \<and>
      processRequestBody pf bodyArg (Some t) = Inr (the (cfg_data config))"
proof
  assume a: "buildRequest pf c info args = Inr config \<and>
        processParameters pf args (oi_parameters info)
          \<lparr>ls_url = (case c_baseUrl c of None \<Rightarrow> ''undefined'' | Some b \<Rightarrow> b) @ oi_path info,
           ls_queryParams = Map.empty, ls_headers = Map.empty, ls_missing = []\<rparr> = Inr st \<and>
        oi_requestBody info = Some requestBody \<and> args ''body'' = Some bodyArg \<and>
        determineContentType requestBody (ls_headers st) = Some t \<and> t \<noteq> []"
  let ?init = "\<lparr>ls_url = (case c_baseUrl c of None \<Rightarrow> ''undefined'' | Some b \<Rightarrow> b) @ oi_path info,
           ls_queryParams = Map.empty, ls_headers = Map.empty, ls_missing = []\<rparr>"
  from a have br: "buildRequest pf c info args = Inr config"
    and pp: "processParameters pf args (oi_parameters info) ?init = Inr st"
    and rb: "oi_requestBody info = Some requestBody"
    and ba: "args ''body'' = Some bodyArg"
    and ct: "determineContentType requestBody (ls_headers st) = Some t"
    and ne: "t \<noteq> []"
    by simp_all
  have set: "truthyString (ls_headers st ''Content-Type'') \<Longrightarrow> ls_headers st ''Content-Type'' = Some t"
    using ct determineContentType_truthy_header [of "ls_headers st" requestBody] by simp
  define hs where "hs =
     (if truthyString (Some t) \<and> \<not> truthyString (ls_headers st ''Content-Type'')
      then (ls_headers st)(''Content-Type'' \<mapsto> t) else ls_headers st)"
  have h: "hs ''Content-Type'' = Some t"
    using set by (simp add: hs_def truthyString_simps ne)
  have unfolded: "buildRequest pf c info args =
      (if ls_missing st \<noteq> [] then
         Inl (Error (''Missing required parameters: '' @ join '', '' (ls_missing st)))
       else
         (case processRequestBody pf bodyArg (Some t) of
            Inl e \<Rightarrow> Inl e
          | Inr body \<Rightarrow>
              Inr \<lparr>cfg_method = oi_method info, cfg_url = ls_url st,
                   cfg_params = ls_queryParams st,
                   cfg_headers = c_commonHeaders c ++ hs,
                   cfg_data = Some body\<rparr>))"
    by (simp only: buildRequest_def pp rb ba ct Let_def sum.case prod.case option.case option.sel hs_def)
  show "cfg_headers config ''Content-Type'' = Some t \<and>
      processRequestBody pf bodyArg (Some t) = Inr (the (cfg_data config))"
  proof (cases "processRequestBody pf bodyArg (Some t)")
    case (Inl e)
    then show ?thesis
      using br unfolded by (simp split: if_splits)
  next
    case (Inr body)
    then have "config = \<lparr>cfg_method = oi_method info, cfg_url = ls_url st,
                   cfg_params = ls_queryParams st,
                   cfg_headers = c_commonHeaders c ++ hs,
                   cfg_data = Some body\<rparr>"
      using br unfolded by (simp split: if_splits)
    then show ?thesis
      using Inr h by (simp add: map_add_def)
  qed
qed

lemma determineContentType_example:
  "(headers ''Content-Type'' = None \<or> headers ''Content-Type'' = Some []) \<and>
        (headers ''content-type'' = None \<or> headers ''content-type'' = Some []) \<and>
        declaredContentTypes requestBody = [''multipart/form-data'', ''application/json''] \<longrightarrow>
      determineContentType requestBody headers = Some ''application/json''"
proof
  assume a: "(headers ''Content-Type'' = None \<or> headers ''Content-Type'' = Some []) \<and>
        (headers ''content-type'' = None \<or> headers ''content-type'' = Some []) \<and>
        declaredContentTypes requestBody = [''multipart/form-data'', ''application/json'']"
  then have "determineContentType requestBody headers =
        (case find (\<lambda>t. t \<in> set (declaredContentTypes requestBody)) preferenceOrder of
           Some t \<Rightarrow> Some t
         | None \<Rightarrow> (case declaredContentTypes requestBody of [] \<Rightarrow> None | t # _ \<Rightarrow> Some t))"
    using determineContentType_declared [of headers requestBody] by blast
  then show "determineContentType requestBody headers = Some ''application/json''"
    using a by (simp add: preferenceOrder_def)
qed

text \<open>
  Claim C3. For an operation with a request body and a body supplied by the caller: when
  the caller has set no \<^verbatim>\<open>Content-Type\<close> header, the content type is the first of the
  preference order \<^verbatim>\<open>application/json\<close>, \<^verbatim>\<open>application/xml\<close>, \<^verbatim>\<open>text/xml\<close>,
  \<^verbatim>\<open>application/x-www-form-urlencoded\<close>, \<^verbatim>\<open>multipart/form-data\<close> that is among the
  declared media types, else the first declared type; when the caller has set the header,
  its value is used unchanged. A body that declares \<^verbatim>\<open>multipart/form-data\<close> and
  \<^verbatim>\<open>application/json\<close>, with no header of the caller, gets \<^verbatim>\<open>application/json\<close>.

  The header is set when the headers built from the arguments hold a truthy, that is
  non-empty, value under \<^verbatim>\<open>Content-Type\<close> or, failing that, under \<^verbatim>\<open>content-type\<close>:
  this is the test of the code (\<^verbatim>\<open>Check if Content-Type is already set\<close>). The last part
  is about the request that is built: its \<^verbatim>\<open>Content-Type\<close> header is the selected type
  and its data is the body encoded for that type.
\<close>

theorem content_type_precedence:
  "(headers ''Content-Type'' = Some v \<and> v \<noteq> [] \<longrightarrow>
      determineContentType requestBody headers = Some v)
   \<and> ((headers ''Content-Type'' = None \<or> headers ''Content-Type'' = Some []) \<and>
        headers ''content-type'' = Some v \<and> v \<noteq> [] \<longrightarrow>
      determineContentType requestBody headers = Some v)
   \<and> ((headers ''Content-Type'' = None \<or> headers ''Content-Type'' = Some []) \<and>
        (headers ''content-type'' = None \<or> headers ''content-type'' = Some []) \<longrightarrow>
      determineContentType requestBody headers =
        (case find (\<lambda>t. t \<in> set (declaredContentTypes requestBody)) preferenceOrder of
           Some t \<Rightarrow> Some t
         | None \<Rightarrow> (case declaredContentTypes requestBody of [] \<Rightarrow> None | t # _ \<Rightarrow> Some t)))
   \<and> ((headers ''Content-Type'' = None \<or> headers ''Content-Type'' = Some []) \<and>
        (headers ''content-type'' = None \<or> headers ''content-type'' = Some []) \<and>
        declaredContentTypes requestBody = [''multipart/form-data'', ''application/json''] \<longrightarrow>
      determineContentType requestBody headers = Some ''application/json'')
   \<and> (buildRequest pf c info args = Inr config \<and>
        processParameters pf args (oi_parameters info)
          \<lparr>ls_url = (case c_baseUrl c of None \<Rightarrow> ''undefined'' | Some b \<Rightarrow> b) @ oi_path info,
           ls_queryParams = Map.empty, ls_headers = Map.empty, ls_missing = []\<rparr> = Inr st \<and>
        oi_requestBody info = Some requestBody \<and> args ''body'' = Some bodyArg \<and>
        determineContentType requestBody (ls_headers st) = Some t \<and> t \<noteq> [] \<longrightarrow>
      cfg_headers config ''Content-Type'' = Some t \<and>
      processRequestBody pf bodyArg (Some t) = Inr (the (cfg_data config)))"
  by (rule conjI [OF determineContentType_caller
              conjI [OF determineContentType_caller_lower
                conjI [OF determineContentType_declared
                  conjI [OF determineContentType_example buildRequest_content_type]]]])


theorem content_type_precedence_witness:
  "determineContentType uploadBody [''Content-Type'' \<mapsto> ''text/plain''] = Some ''text/plain''
   \<and> determineContentType uploadBody [''content-type'' \<mapsto> ''text/xml''] = Some ''text/xml''
   \<and> determineContentType uploadBody Map.empty = Some ''application/json''
   \<and> declaredContentTypes uploadBody = [''multipart/form-data'', ''application/json'']
   \<and> cfg_headers
        (projr (buildRequest examplePlatform uploadClient (the (c_operations uploadClient ''upload''))
                  [''body'' \<mapsto> JObj [(''name'', JStr ''x'')]]))
        ''Content-Type'' = Some ''application/json''
   \<and> map (\<lambda>config. cfg_headers config ''Content-Type'')
        (snd (executeOperation examplePlatform exampleTransport uploadClient ''upload''
                [''body'' \<mapsto> JObj [(''name'', JStr ''x'')], ''Content-Type'' \<mapsto> JStr ''text/plain'']))
       = [Some ''text/plain'']"
proof -
  let ?ha = "[''Content-Type'' \<mapsto> ''text/plain'']"
  let ?hb = "[''content-type'' \<mapsto> ''text/xml'']"
  let ?hc = "Map.empty :: string \<rightharpoonup> string"
  let ?info = "the (c_operations uploadClient ''upload'')"
  let ?args = "[''body'' \<mapsto> JObj [(''name'', JStr ''x'')]]"
  let ?init = "\<lparr>ls_url = (case c_baseUrl uploadClient of None \<Rightarrow> ''undefined'' | Some b \<Rightarrow> b) @ oi_path ?info,
           ls_queryParams = Map.empty, ls_headers = Map.empty, ls_missing = []\<rparr>"
  let ?st = "projr (processParameters examplePlatform ?args (oi_parameters ?info) ?init)"
  let ?config = "projr (buildRequest examplePlatform uploadClient ?info ?args)"
  have a1: "?ha ''Content-Type'' = Some ''text/plain'' \<and> ''text/plain'' \<noteq> []"
    by simp
  have a2: "(?hb ''Content-Type'' = None \<or> ?hb ''Content-Type'' = Some []) \<and>
        ?hb ''content-type'' = Some ''text/xml'' \<and> ''text/xml'' \<noteq> []"
    by simp
  have a3: "(?hc ''Content-Type'' = None \<or> ?hc ''Content-Type'' = Some []) \<and>
        (?hc ''content-type'' = None \<or> ?hc ''content-type'' = Some []) \<and>
        declaredContentTypes uploadBody = [''multipart/form-data'', ''application/json'']"
    by (simp add: declaredContentTypes_def uploadBody_def)
  have b1: "\<not> isl (buildRequest examplePlatform uploadClient ?info ?args)"
    by code_simp
  have b2: "\<not> isl (processParameters examplePlatform ?args (oi_parameters ?info) ?init)"
    by code_simp
  have b3: "oi_requestBody ?info = Some uploadBody"
    by code_simp
  have b4: "determineContentType uploadBody (ls_headers ?st) = Some ''application/json''"
    by code_simp
  have a5: "buildRequest examplePlatform uploadClient ?info ?args = Inr ?config \<and>
        processParameters examplePlatform ?args (oi_parameters ?info) ?init = Inr ?st \<and>
        oi_requestBody ?info = Some uploadBody \<and> ?args ''body'' = Some (JObj [(''name'', JStr ''x'')]) \<and>
        determineContentType uploadBody (ls_headers ?st) = Some ''application/json'' \<and>
        ''application/json'' \<noteq> []"
    using b1 b2 b3 b4 by simp
  have e2e: "map (\<lambda>config. cfg_headers config ''Content-Type'')
        (snd (executeOperation examplePlatform exampleTransport uploadClient ''upload''
                [''body'' \<mapsto> JObj [(''name'', JStr ''x'')], ''Content-Type'' \<mapsto> JStr ''text/plain'']))
       = [Some ''text/plain'']"
    by code_simp
  note t1 = content_type_precedence [of ?ha "''text/plain''" uploadBody]
  note t2 = content_type_precedence [of ?hb "''text/xml''" uploadBody]
  note t3 = content_type_precedence [of ?hc _ uploadBody examplePlatform uploadClient ?info ?args
      ?config ?st "JObj [(''name'', JStr ''x'')]" "''application/json''"]
  have c1: "determineContentType uploadBody ?ha = Some ''text/plain''"
    by (rule t1 [THEN conjunct1, THEN mp, OF a1])
  have c2: "determineContentType uploadBody ?hb = Some ''text/xml''"
    by (rule t2 [THEN conjunct2, THEN conjunct1, THEN mp, OF a2])
  have c3: "determineContentType uploadBody ?hc = Some ''application/json''"
    by (rule t3 [THEN conjunct2, THEN conjunct2, THEN conjunct2, THEN conjunct1, THEN mp, OF a3])
  have c4: "declaredContentTypes uploadBody = [''multipart/form-data'', ''application/json'']"
    using a3 by simp
  have c5: "cfg_headers ?config ''Content-Type'' = Some ''application/json''"
    by (rule t3 [THEN conjunct2, THEN conjunct2, THEN conjunct2, THEN conjunct2, THEN mp, OF a5,
          THEN conjunct1])
  show ?thesis
    using c1 c2 c3 c4 c5 e2e by (intro conjI)
qed

subsection \<open>Validation before the call\<close>

lemma placeParameter_missing [simp]:
  "ls_missing (placeParameter pf param v st) = ls_missing st"
  by (simp add: placeParameter_def)




















subsection \<open>Schema resolution\<close>

lemma noReference_stub: "noReference (stub s)"
  by (cases s) (simp_all add: placeholder_def list_all_iff)

lemma noReference_resolveWithin: "noReference (resolveWithin remaining defs pathStack s)"
  by (induction remaining defs pathStack s rule: resolveWithin.induct)
     (auto simp: noReference_stub placeholder_def list_all_iff split: option.splits nat.splits)

lemma maxList_ge: "x \<in> set xs \<Longrightarrow> x \<le> maxList xs"
  by (induction xs) (auto simp: maxList_def)

lemma maxList_le: "(\<And>x. x \<in> set xs \<Longrightarrow> x \<le> b) \<Longrightarrow> maxList xs \<le> b"
  by (induction xs) (auto simp: maxList_def)

lemma height_stub: "height (stub s) \<le> 2"
proof (cases s)
  case (ObjectSchema props req d)
  have "maxList (map (\<lambda>p. height (snd p)) (map (\<lambda>p. (fst p, placeholder)) props)) \<le> 1"
    by (rule maxList_le) (auto simp: placeholder_def)
  then show ?thesis
    using ObjectSchema by simp
qed (simp_all add: placeholder_def)

lemma height_target: "map_of defs p = Some target \<Longrightarrow> height target \<le> defsHeight defs"
proof -
  assume "map_of defs p = Some target"
  then have "(p, target) \<in> set defs"
    by (rule map_of_SomeD)
  then have "height target \<in> set (map (\<lambda>p. height (snd p)) defs)"
    by force
  then show ?thesis
    unfolding defsHeight_def by (rule maxList_ge)
qed

lemma height_resolveWithin:
  "height (resolveWithin remaining defs pathStack s)
     \<le> height s + Suc remaining * Suc (defsHeight defs)"
proof (induction remaining defs pathStack s rule: resolveWithin.induct)
  case (1 remaining defs pathStack p)
  show ?case
  proof (cases "map_of defs p")
    case None
    then show ?thesis by (simp add: placeholder_def)
  next
    case (Some target)
    note t = height_target [OF Some]
    show ?thesis
    proof (cases "p \<in> set pathStack")
      case True
      then show ?thesis
        using Some height_stub [of target] by simp
    next
      case False
      show ?thesis
      proof (cases remaining)
        case 0
        then show ?thesis
          using Some False height_stub [of target] by simp
      next
        case (Suc r)
        have "height (resolveWithin r defs (p # pathStack) target)
                \<le> height target + Suc r * Suc (defsHeight defs)"
          using "1.IH" [OF Some False Suc] .
        then show ?thesis
          using Some False Suc t by simp
      qed
    qed
  qed
next
  case (2 remaining defs pathStack props req d)
  have "maxList (map (\<lambda>p. height (snd p))
          (map (\<lambda>p. (fst p, resolveWithin remaining defs pathStack (snd p))) props))
        \<le> maxList (map (\<lambda>p. height (snd p)) props) + Suc remaining * Suc (defsHeight defs)"
  proof (rule maxList_le)
    fix x
    assume "x \<in> set (map (\<lambda>p. height (snd p))
          (map (\<lambda>p. (fst p, resolveWithin remaining defs pathStack (snd p))) props))"
    then obtain q where q: "q \<in> set props"
      and x: "x = height (resolveWithin remaining defs pathStack (snd q))"
      by auto
    have "height (snd q) \<le> maxList (map (\<lambda>p. height (snd p)) props)"
      using q by (intro maxList_ge) force
    then show "x \<le> maxList (map (\<lambda>p. height (snd p)) props) + Suc remaining * Suc (defsHeight defs)"
      using "2.IH" [OF q] x by linarith
  qed
  then show ?case by simp
next
  case (3 remaining defs pathStack i d)
  then show ?case by simp
next
  case (4 remaining defs pathStack k ms d)
  have "maxList (map height (map (resolveWithin remaining defs pathStack) ms))
        \<le> maxList (map height ms) + Suc remaining * Suc (defsHeight defs)"
  proof (rule maxList_le)
    fix x
    assume "x \<in> set (map height (map (resolveWithin remaining defs pathStack) ms))"
    then obtain m where m: "m \<in> set ms"
      and x: "x = height (resolveWithin remaining defs pathStack m)"
      by auto
    have "height m \<le> maxList (map height ms)"
      using m by (intro maxList_ge) force
    then show "x \<le> maxList (map height ms) + Suc remaining * Suc (defsHeight defs)"
      using "4.IH" [OF m] x by linarith
  qed
  then show ?case by simp
next
  case (5 remaining defs pathStack t e d)
  then show ?case by simp
qed

lemma propertyNames_stub: "propertyNames (stub s) = propertyNames s"
  by (cases s) (simp_all add: placeholder_def comp_def)

lemma propertyNames_reference:
  "map_of defs p = Some (ObjectSchema props req d) \<Longrightarrow>
   propertyNames (resolveWithin remaining defs pathStack (Reference p)) = map fst props"
  by (cases remaining) (simp_all add: comp_def)


text \<open>
  Claim C5. Schema resolution terminates on every input schema, also on self-referential
  and mutually referential schema graphs, and returns a finite tree that can be serialised,
  without raising; for a schema where \<^verbatim>\<open>Entity.parent\<close> references \<^verbatim>\<open>Entity\<close>, the resolved
  body schema keeps the top-level property names \<^verbatim>\<open>id\<close>, \<^verbatim>\<open>parent\<close>, \<^verbatim>\<open>children\<close> and
  \<^verbatim>\<open>metadata\<close>.

  The resolver is a total function: its recursion is well-founded on the remaining depth
  and the size of the schema, whatever the definitions table holds, and every case
  returns a tree. The result holds no reference any more, so that it is a self-contained
  tree; its height is bounded by the height of the input and, for each reference that
  may be followed, the height of the largest definition. A reference to an object keeps
  the property names of the object whether it is expanded or cut to a stub.
\<close>

theorem resolve_finite_tree:
  "noReference (resolve maxDepth defs schema pathStack)
   \<and> height (resolve maxDepth defs schema pathStack)
       \<le> height schema + Suc (maxDepth - length pathStack) * Suc (defsHeight defs)
   \<and> (map_of defs p = Some (ObjectSchema props req d) \<longrightarrow>
        propertyNames (resolve maxDepth defs (Reference p) pathStack) = map fst props)
   \<and> propertyNames (resolve maxDepth entityDefs (Reference ''Entity'') [])
       = [''id'', ''parent'', ''children'', ''metadata'']"
proof (intro conjI impI)
  show "noReference (resolve maxDepth defs schema pathStack)"
    by (simp add: resolve_def noReference_resolveWithin)
  show "height (resolve maxDepth defs schema pathStack)
       \<le> height schema + Suc (maxDepth - length pathStack) * Suc (defsHeight defs)"
    unfolding resolve_def by (rule height_resolveWithin)
  show "propertyNames (resolve maxDepth defs (Reference p) pathStack) = map fst props"
    if "map_of defs p = Some (ObjectSchema props req d)"
    using that unfolding resolve_def by (rule propertyNames_reference)
  have "map_of entityDefs ''Entity'' =
     Some (ObjectSchema
         [(''id'', Scalar (Some ''string'') [] None),
          (''parent'', Reference ''Entity''),
          (''children'', ArraySchema (Reference ''Entity'') None),
          (''metadata'', Reference ''Metadata'')]
         [''id''] None)"
    by (simp add: entityDefs_def)
  then have "propertyNames (resolveWithin (maxDepth - length ([] :: string list)) entityDefs []
               (Reference ''Entity''))
     = map fst [(''id'', Scalar (Some ''string'') [] None),
          (''parent'', Reference ''Entity''),
          (''children'', ArraySchema (Reference ''Entity'') None),
          (''metadata'', Reference ''Metadata'')]"
    by (rule propertyNames_reference)
  then show "propertyNames (resolve maxDepth entityDefs (Reference ''Entity'') [])
       = [''id'', ''parent'', ''children'', ''metadata'']"
    by (simp add: resolve_def)
qed

theorem resolve_finite_tree_witness:
  "noReference (resolve 10 entityDefs (Reference ''Entity'') [])
   \<and> height (resolve 10 entityDefs (Reference ''Entity'') []) \<le> 45
   \<and> map_of entityDefs ''Metadata''
       = Some (ObjectSchema
                [(''tags'', ArraySchema (Scalar (Some ''string'') [] None) None),
                 (''entity'', Reference ''Entity'')]
                [] None)
   \<and> propertyNames (resolve 10 entityDefs (Reference ''Metadata'') [''Entity'']) = [''tags'', ''entity'']
   \<and> propertyNames (resolve 10 entityDefs (Reference ''Entity'') [])
       = [''id'', ''parent'', ''children'', ''metadata'']"
proof -
  let ?props = "[(''tags'', ArraySchema (Scalar (Some ''string'') [] None) None),
                 (''entity'', Reference ''Entity'')]"
  have m: "map_of entityDefs ''Metadata'' = Some (ObjectSchema ?props [] None)"
    by (simp add: entityDefs_def)
  have h: "height (Reference ''Entity'') + Suc (10 - length ([] :: string list)) * Suc (defsHeight entityDefs) = 45"
    by code_simp
  note ta = resolve_finite_tree [of 10 entityDefs "Reference ''Entity''" "[]"]
  note tb = resolve_finite_tree [of 10 entityDefs _ "[''Entity'']" "''Metadata''" ?props "[]" None]
  have a: "noReference (resolve 10 entityDefs (Reference ''Entity'') [])"
    by (rule ta [THEN conjunct1])
  have b: "height (resolve 10 entityDefs (Reference ''Entity'') []) \<le> 45"
    using ta [THEN conjunct2, THEN conjunct1] h by simp
  have c: "propertyNames (resolve 10 entityDefs (Reference ''Metadata'') [''Entity'']) = [''tags'', ''entity'']"
    using tb [THEN conjunct2, THEN conjunct2, THEN conjunct1, THEN mp, OF m] by simp
  have d: "propertyNames (resolve 10 entityDefs (Reference ''Entity'') [])
       = [''id'', ''parent'', ''children'', ''metadata'']"
    by (rule ta [THEN conjunct2, THEN conjunct2, THEN conjunct2])
  show ?thesis
    using a b m c d by (intro conjI)
qed

end
